theory Spec2Isabelle
  imports Main "HOL-Library.AList"
begin

section \<open>Python objects: values, containers and the object store\<close>

text \<open>
  Resources are Python objects, held by reference in the registry and in the resource
  store, and their tag maps and lists are objects of their own. Both live in an explicit
  store: an address is a natural number, \<open>lim\<close> is the next address the allocator
  hands out.
\<close>

type_synonym addr = nat

datatype ResourceStatus = CREATING | RUNNING | STOPPED | DELETING | ERROR

text \<open>The immutable values found in a \<open>Dict[str, Any]\<close> of the products.\<close>

datatype pyval = VStr string | VInt int | VBool bool | VNone

text \<open>
  The mutable containers the products use, by their declared type:
  \<open>List[str]\<close>, \<open>Dict[str, str]\<close>, \<open>Dict[str, Any]\<close>,
  \<open>List[Dict[str, Any]]\<close> and \<open>Dict[str, Dict[str, Any]]\<close>. The last two hold
  references to the inner dictionaries.
\<close>

datatype container =
    StrList "string list"
  | StrDict "(string \<times> string) list"
  | AnyDict "(string \<times> pyval) list"
  | RefList "addr list"
  | RefDict "(string \<times> addr) list"

text \<open>
  The attributes each concrete class adds to \<open>CloudResource\<close>, in the order of its
  constructor:
  \<^item> \<open>EC2Instance\<close>: instance_type, ami, vpc_id, security_groups, key_pair, private_ip,
    public_ip;
  \<^item> \<open>RDSDatabase\<close>: engine, instance_class, allocated_storage, endpoint, port;
  \<^item> \<open>ApplicationLoadBalancer\<close>: vpc_id, scheme, targets, listeners, dns_name;
  \<^item> \<open>S3Storage\<close>: bucket_name, storage_class, objects, versioning_enabled;
  \<^item> \<open>EC2NetworkInterface\<close>: instance_id, security_groups, public_ip;
  \<^item> \<open>ComputeEngineInstance\<close>: zone, machine_type, boot_disk_size, project_id;
  \<^item> \<open>CloudSQLDatabase\<close>: engine, engine_version, tier, storage_size;
  \<^item> \<open>CloudLoadBalancer\<close>: load_balancer_type, backend_services;
  \<^item> \<open>CloudStorage\<close>: location, storage_class, versioning_enabled;
  \<^item> \<open>OnPremiseVirtualMachine\<close>: cpu_cores, ram_gb, disk_gb, hypervisor,
    network_interface, host_server, datastore;
  \<^item> \<open>OnPremiseDatabase\<close>: engine, version, port, host_server, data_directory,
    max_connections;
  \<^item> \<open>OnPremiseLoadBalancer\<close>: load_balancer_type, listen_port, algorithm, host_server,
    backend_servers;
  \<^item> \<open>OnPremiseStorage\<close>: storage_type, mount_point, capacity_gb, host_server,
    protocol_version, access_permissions.
\<close>

datatype product =
    EC2Instance string string string addr string string string
  | RDSDatabase string string int string int
  | ApplicationLoadBalancer string string addr addr string
  | S3Storage string string addr bool
  | EC2NetworkInterface string addr string
  | ComputeEngineInstance string string int string
  | CloudSQLDatabase string string string int
  | CloudLoadBalancer string addr
  | CloudStorage string string bool
  | OnPremiseVirtualMachine int int int string string string string
  | OnPremiseDatabase string string int string string int
  | OnPremiseLoadBalancer string int string string addr
  | OnPremiseStorage string string int string string string

text \<open>
  A resource: the attributes of \<open>CloneableResource.__init__\<close>, then those of
  \<open>CloudResource.__init__\<close>, then the concrete class. Timestamps are integers
  (a reading of \<open>datetime.now()\<close>).
\<close>

record resource =
  prototype_id :: string
  is_prototype :: bool
  cloned_from :: "string option"
  clone_count :: int
  created_at :: int
  last_cloned_at :: "int option"
  resource_id :: string
  name :: string
  region :: string
  status :: ResourceStatus
  tags :: addr
  product :: product

record heap =
  objs :: "addr \<Rightarrow> container option"
  ress :: "addr \<Rightarrow> resource option"
  lim :: addr

text \<open>
  \<open>AttributeError c a\<close>: an object of class \<open>c\<close> has no attribute \<open>a\<close>.
  \<open>Unallocated a\<close> is not an exception of the program: it marks a read of an address
  that holds no resource, which a Python reference can never be.
\<close>

datatype error =
    AttributeError string string
  | KeyError string
  | Unallocated addr

section \<open>copy.deepcopy\<close>

text \<open>
  \<open>copy.deepcopy\<close> keeps a memo from the objects it has copied to their copies, so that
  an object reached twice is copied once. The inner dictionaries of a list or dictionary
  of references hold immutable values only.
\<close>

type_synonym memo = "(addr \<times> addr) list"

definition alloc :: "heap \<Rightarrow> container option \<Rightarrow> heap \<times> addr" where
  "alloc h c = (h\<lparr>objs := (objs h)(lim h := c), lim := Suc (lim h)\<rparr>, lim h)"

definition copy_leaf :: "heap \<Rightarrow> memo \<Rightarrow> addr \<Rightarrow> heap \<times> memo \<times> addr" where
  "copy_leaf h m a =
     (case map_of m a of
        Some a' \<Rightarrow> (h, m, a')
      | None \<Rightarrow> (case alloc h (objs h a) of (h', a') \<Rightarrow> (h', (a, a') # m, a')))"

fun copy_refs :: "heap \<Rightarrow> memo \<Rightarrow> addr list \<Rightarrow> heap \<times> memo \<times> addr list" where
  "copy_refs h m [] = (h, m, [])"
| "copy_refs h m (a # as) =
     (case copy_leaf h m a of (h1, m1, a') \<Rightarrow>
        (case copy_refs h1 m1 as of (h2, m2, as') \<Rightarrow> (h2, m2, a' # as')))"

fun copy_items ::
  "heap \<Rightarrow> memo \<Rightarrow> (string \<times> addr) list \<Rightarrow> heap \<times> memo \<times> (string \<times> addr) list" where
  "copy_items h m [] = (h, m, [])"
| "copy_items h m ((k, a) # kvs) =
     (case copy_leaf h m a of (h1, m1, a') \<Rightarrow>
        (case copy_items h1 m1 kvs of (h2, m2, kvs') \<Rightarrow> (h2, m2, (k, a') # kvs')))"

definition deepcopy_obj :: "heap \<Rightarrow> memo \<Rightarrow> addr \<Rightarrow> heap \<times> memo \<times> addr" where
  "deepcopy_obj h m a =
     (case map_of m a of
        Some a' \<Rightarrow> (h, m, a')
      | None \<Rightarrow>
          (case objs h a of
             Some (RefList as) \<Rightarrow>
               (case copy_refs h m as of (h1, m1, as') \<Rightarrow>
                  (case alloc h1 (Some (RefList as')) of (h2, a') \<Rightarrow> (h2, (a, a') # m1, a')))
           | Some (RefDict kvs) \<Rightarrow>
               (case copy_items h m kvs of (h1, m1, kvs') \<Rightarrow>
                  (case alloc h1 (Some (RefDict kvs')) of (h2, a') \<Rightarrow> (h2, (a, a') # m1, a')))
           | c \<Rightarrow> (case alloc h c of (h', a') \<Rightarrow> (h', (a, a') # m, a'))))"

fun deepcopy_product :: "heap \<Rightarrow> memo \<Rightarrow> product \<Rightarrow> heap \<times> memo \<times> product" where
  "deepcopy_product h m (EC2Instance it ami vpc sg kp priv pub) =
     (case deepcopy_obj h m sg of (h1, m1, sg') \<Rightarrow>
        (h1, m1, EC2Instance it ami vpc sg' kp priv pub))"
| "deepcopy_product h m (ApplicationLoadBalancer vpc sch tg ls dns) =
     (case deepcopy_obj h m tg of (h1, m1, tg') \<Rightarrow>
        (case deepcopy_obj h1 m1 ls of (h2, m2, ls') \<Rightarrow>
           (h2, m2, ApplicationLoadBalancer vpc sch tg' ls' dns)))"
| "deepcopy_product h m (S3Storage bn sc ob ve) =
     (case deepcopy_obj h m ob of (h1, m1, ob') \<Rightarrow> (h1, m1, S3Storage bn sc ob' ve))"
| "deepcopy_product h m (EC2NetworkInterface iid sg pub) =
     (case deepcopy_obj h m sg of (h1, m1, sg') \<Rightarrow> (h1, m1, EC2NetworkInterface iid sg' pub))"
| "deepcopy_product h m (CloudLoadBalancer ty bs) =
     (case deepcopy_obj h m bs of (h1, m1, bs') \<Rightarrow> (h1, m1, CloudLoadBalancer ty bs'))"
| "deepcopy_product h m (OnPremiseLoadBalancer ty lp al hs bs) =
     (case deepcopy_obj h m bs of (h1, m1, bs') \<Rightarrow>
        (h1, m1, OnPremiseLoadBalancer ty lp al hs bs'))"
| "deepcopy_product h m p = (h, m, p)"

text \<open>
  \<open>copy.deepcopy(self)\<close> on a resource: the tag map and the containers of the concrete
  class are copied, the scalar attributes are taken over, and the copy is a new object.
\<close>

definition deepcopy :: "heap \<Rightarrow> resource \<Rightarrow> heap \<times> addr" where
  "deepcopy h r =
     (case deepcopy_obj h [] (tags r) of (h1, m1, t') \<Rightarrow>
        (case deepcopy_product h1 m1 (product r) of (h2, m2, p') \<Rightarrow>
           (h2\<lparr>ress := (ress h2)(lim h2 \<mapsto> r\<lparr>tags := t', product := p'\<rparr>),
               lim := Suc (lim h2)\<rparr>, lim h2)))"

section \<open>CloneableResource and CloudResource\<close>

text \<open>
  What a call of \<open>clone\<close> draws from outside: two \<open>uuid.uuid4().hex\<close> strings (for the
  resource identifier and for the prototype identifier) and two readings of
  \<open>datetime.now()\<close> (for the clone's \<open>created_at\<close> and the source's
  \<open>last_cloned_at\<close>), in the order the code draws them.
\<close>

record clone_env =
  uuid_resource :: string
  uuid_prototype :: string
  now_created :: int
  now_cloned :: int

text \<open>\<open>s.split('-')[0]\<close>: the part of \<open>s\<close> before its first dash.\<close>

definition split_first :: "string \<Rightarrow> string" where
  "split_first s = takeWhile (\<lambda>c. c \<noteq> CHR ''-'') s"

definition upd_res :: "heap \<Rightarrow> addr \<Rightarrow> (resource \<Rightarrow> resource) \<Rightarrow> heap" where
  "upd_res h a f = h\<lparr>ress := (ress h)(a := map_option f (ress h a))\<rparr>"

text \<open>\<open>CloneableResource.clone\<close> (prototype.py, lines 61 to 84).\<close>

definition CloneableResource_clone :: "heap \<Rightarrow> addr \<Rightarrow> clone_env \<Rightarrow> error + heap \<times> addr" where
  "CloneableResource_clone h a env =
     (case ress h a of
        None \<Rightarrow> Inl (Unallocated a)
      | Some self \<Rightarrow>
          (case deepcopy h self of (h1, c) \<Rightarrow>
             (let h2 = upd_res h1 c (\<lambda>cloned. cloned
                    \<lparr>prototype_id := ''proto-'' @ take 8 (uuid_prototype env),
                     is_prototype := False,
                     cloned_from := Some (prototype_id self),
                     clone_count := 0,
                     created_at := now_created env,
                     last_cloned_at := None,
                     resource_id := split_first (resource_id self) @ ''-''
                                      @ take 8 (uuid_resource env)\<rparr>);
                  h3 = upd_res h2 a (\<lambda>s. s
                    \<lparr>clone_count := clone_count s + 1,
                     last_cloned_at := Some (now_cloned env)\<rparr>)
              in Inr (h3, c))))"

text \<open>\<open>CloneableResource.mark_as_prototype\<close>: an empty name is falsy and leaves the
  name as it is.\<close>

definition mark_as_prototype :: "heap \<Rightarrow> addr \<Rightarrow> string option \<Rightarrow> heap" where
  "mark_as_prototype h a prototype_name =
     upd_res (upd_res h a (\<lambda>s. s\<lparr>is_prototype := True\<rparr>)) a
       (\<lambda>s. case prototype_name of
               None \<Rightarrow> s
             | Some n \<Rightarrow> if n = [] then s else s\<lparr>name := n\<rparr>)"

text \<open>\<open>CloudResource.can_be_cloned\<close> (products.py, lines 52 to 59).\<close>

definition can_be_cloned :: "resource \<Rightarrow> bool" where
  "can_be_cloned r = (status r \<in> set [RUNNING, STOPPED, CREATING])"

section \<open>The concrete products\<close>

text \<open>Attribute writes and reads on the object of a concrete class.\<close>

fun set_private_ip :: "string \<Rightarrow> product \<Rightarrow> product" where
  "set_private_ip v (EC2Instance it ami vpc sg kp _ pub) = EC2Instance it ami vpc sg kp v pub"
| "set_private_ip v p = p"

fun set_public_ip :: "string \<Rightarrow> product \<Rightarrow> product" where
  "set_public_ip v (EC2Instance it ami vpc sg kp priv _) = EC2Instance it ami vpc sg kp priv v"
| "set_public_ip v (EC2NetworkInterface iid sg _) = EC2NetworkInterface iid sg v"
| "set_public_ip v p = p"

fun set_security_groups :: "addr \<Rightarrow> product \<Rightarrow> product" where
  "set_security_groups v (EC2Instance it ami vpc _ kp priv pub) =
     EC2Instance it ami vpc v kp priv pub"
| "set_security_groups v (EC2NetworkInterface iid _ pub) = EC2NetworkInterface iid v pub"
| "set_security_groups v p = p"

fun security_groups :: "product \<Rightarrow> addr option" where
  "security_groups (EC2Instance _ _ _ sg _ _ _) = Some sg"
| "security_groups (EC2NetworkInterface _ sg _) = Some sg"
| "security_groups p = None"

fun private_ip :: "product \<Rightarrow> string option" where
  "private_ip (EC2Instance _ _ _ _ _ priv _) = Some priv"
| "private_ip p = None"

fun public_ip :: "product \<Rightarrow> string option" where
  "public_ip (EC2Instance _ _ _ _ _ _ pub) = Some pub"
| "public_ip (EC2NetworkInterface _ _ pub) = Some pub"
| "public_ip p = None"

fun set_endpoint :: "string \<Rightarrow> product \<Rightarrow> product" where
  "set_endpoint v (RDSDatabase en ic st _ po) = RDSDatabase en ic st v po"
| "set_endpoint v p = p"

fun endpoint :: "product \<Rightarrow> string option" where
  "endpoint (RDSDatabase _ _ _ ep _) = Some ep"
| "endpoint p = None"

fun set_targets :: "addr \<Rightarrow> product \<Rightarrow> product" where
  "set_targets v (ApplicationLoadBalancer vpc sch _ ls dns) =
     ApplicationLoadBalancer vpc sch v ls dns"
| "set_targets v p = p"

fun set_listeners :: "addr \<Rightarrow> product \<Rightarrow> product" where
  "set_listeners v (ApplicationLoadBalancer vpc sch tg _ dns) =
     ApplicationLoadBalancer vpc sch tg v dns"
| "set_listeners v p = p"

fun set_dns_name :: "string \<Rightarrow> product \<Rightarrow> product" where
  "set_dns_name v (ApplicationLoadBalancer vpc sch tg ls _) =
     ApplicationLoadBalancer vpc sch tg ls v"
| "set_dns_name v p = p"

fun targets :: "product \<Rightarrow> addr option" where
  "targets (ApplicationLoadBalancer _ _ tg _ _) = Some tg"
| "targets p = None"

fun listeners :: "product \<Rightarrow> addr option" where
  "listeners (ApplicationLoadBalancer _ _ _ ls _) = Some ls"
| "listeners p = None"

fun dns_name :: "product \<Rightarrow> string option" where
  "dns_name (ApplicationLoadBalancer _ _ _ _ dns) = Some dns"
| "dns_name p = None"

fun set_objects :: "addr \<Rightarrow> product \<Rightarrow> product" where
  "set_objects v (S3Storage bn sc _ ve) = S3Storage bn sc v ve"
| "set_objects v p = p"

fun set_bucket_name :: "string \<Rightarrow> product \<Rightarrow> product" where
  "set_bucket_name v (S3Storage _ sc ob ve) = S3Storage v sc ob ve"
| "set_bucket_name v p = p"

fun objects :: "product \<Rightarrow> addr option" where
  "objects (S3Storage _ _ ob _) = Some ob"
| "objects p = None"

fun class_name :: "product \<Rightarrow> string" where
  "class_name (EC2Instance _ _ _ _ _ _ _) = ''EC2Instance''"
| "class_name (RDSDatabase _ _ _ _ _) = ''RDSDatabase''"
| "class_name (ApplicationLoadBalancer _ _ _ _ _) = ''ApplicationLoadBalancer''"
| "class_name (S3Storage _ _ _ _) = ''S3Storage''"
| "class_name (EC2NetworkInterface _ _ _) = ''EC2NetworkInterface''"
| "class_name (ComputeEngineInstance _ _ _ _) = ''ComputeEngineInstance''"
| "class_name (CloudSQLDatabase _ _ _ _) = ''CloudSQLDatabase''"
| "class_name (CloudLoadBalancer _ _) = ''CloudLoadBalancer''"
| "class_name (CloudStorage _ _ _) = ''CloudStorage''"
| "class_name (OnPremiseVirtualMachine _ _ _ _ _ _ _) = ''OnPremiseVirtualMachine''"
| "class_name (OnPremiseDatabase _ _ _ _ _ _) = ''OnPremiseDatabase''"
| "class_name (OnPremiseLoadBalancer _ _ _ _ _) = ''OnPremiseLoadBalancer''"
| "class_name (OnPremiseStorage _ _ _ _ _ _) = ''OnPremiseStorage''"

definition set_attr :: "heap \<Rightarrow> addr \<Rightarrow> (product \<Rightarrow> product) \<Rightarrow> heap" where
  "set_attr h a f = upd_res h a (\<lambda>s. s\<lparr>product := f (product s)\<rparr>)"

text \<open>Reading a container attribute of \<open>self\<close>.\<close>

definition attr_of :: "heap \<Rightarrow> addr \<Rightarrow> (product \<Rightarrow> 'a option) \<Rightarrow> 'a option" where
  "attr_of h a f = (case ress h a of None \<Rightarrow> None | Some s \<Rightarrow> f (product s))"

text \<open>\<open>s[-8:]\<close>: the last eight characters, the whole string when it is shorter.\<close>

definition last8 :: "string \<Rightarrow> string" where
  "last8 s = drop (length s - 8) s"

text \<open>\<open>EC2Instance.clone\<close> (aws_products.py, lines 69 to 87). \<open>xs.copy()\<close> is a new list
  object with the elements of \<open>xs\<close>.\<close>

definition EC2Instance_clone :: "heap \<Rightarrow> addr \<Rightarrow> clone_env \<Rightarrow> error + heap \<times> addr" where
  "EC2Instance_clone h a env =
     (case CloneableResource_clone h a env of
        Inl e \<Rightarrow> Inl e
      | Inr (h1, c) \<Rightarrow>
          (let h2 = set_attr h1 c (set_private_ip []);
               h3 = set_attr h2 c (set_public_ip [])
           in case attr_of h3 a security_groups of
                None \<Rightarrow> Inl (AttributeError ''EC2Instance'' ''security_groups'')
              | Some sg \<Rightarrow>
                  (case alloc h3 (objs h3 sg) of (h4, sg') \<Rightarrow>
                     Inr (set_attr h4 c (set_security_groups sg'), c))))"

text \<open>\<open>RDSDatabase.clone\<close> (aws_products.py, lines 130 to 143).\<close>

definition RDSDatabase_clone :: "heap \<Rightarrow> addr \<Rightarrow> clone_env \<Rightarrow> error + heap \<times> addr" where
  "RDSDatabase_clone h a env =
     (case CloneableResource_clone h a env of
        Inl e \<Rightarrow> Inl e
      | Inr (h1, c) \<Rightarrow>
          (case ress h1 c of
             None \<Rightarrow> Inl (Unallocated c)
           | Some cloned \<Rightarrow>
               Inr (set_attr h1 c
                      (set_endpoint (name cloned @ ''.'' @ region cloned @ ''.rds.amazonaws.com'')),
                    c)))"

text \<open>\<open>ApplicationLoadBalancer.clone\<close> (aws_products.py, lines 192 to 209).\<close>

definition ApplicationLoadBalancer_clone ::
  "heap \<Rightarrow> addr \<Rightarrow> clone_env \<Rightarrow> error + heap \<times> addr" where
  "ApplicationLoadBalancer_clone h a env =
     (case CloneableResource_clone h a env of
        Inl e \<Rightarrow> Inl e
      | Inr (h1, c) \<Rightarrow>
          (case alloc h1 (Some (StrList [])) of (h2, tg') \<Rightarrow>
             (let h3 = set_attr h2 c (set_targets tg')
              in case attr_of h3 a listeners of
                   None \<Rightarrow> Inl (AttributeError ''ApplicationLoadBalancer'' ''listeners'')
                 | Some ls \<Rightarrow>
                     (case alloc h3 (objs h3 ls) of (h4, ls') \<Rightarrow>
                        (let h5 = set_attr h4 c (set_listeners ls')
                         in case ress h5 c of
                              None \<Rightarrow> Inl (Unallocated c)
                            | Some cloned \<Rightarrow>
                                Inr (set_attr h5 c
                                       (set_dns_name
                                          (name cloned @ ''-'' @ last8 (resource_id cloned)
                                             @ ''.'' @ region cloned @ ''.elb.amazonaws.com'')),
                                     c))))))"

text \<open>\<open>S3Storage.clone\<close> (aws_products.py, lines 254 to 270).\<close>

definition S3Storage_clone :: "heap \<Rightarrow> addr \<Rightarrow> clone_env \<Rightarrow> error + heap \<times> addr" where
  "S3Storage_clone h a env =
     (case CloneableResource_clone h a env of
        Inl e \<Rightarrow> Inl e
      | Inr (h1, c) \<Rightarrow>
          (case alloc h1 (Some (RefDict [])) of (h2, ob') \<Rightarrow>
             (let h3 = set_attr h2 c (set_objects ob')
              in case ress h3 c of
                   None \<Rightarrow> Inl (Unallocated c)
                 | Some cloned \<Rightarrow> Inr (set_attr h3 c (set_bucket_name (name cloned)), c))))"

text \<open>\<open>EC2NetworkInterface.clone\<close> (aws_products.py, lines 305 to 317).\<close>

definition EC2NetworkInterface_clone ::
  "heap \<Rightarrow> addr \<Rightarrow> clone_env \<Rightarrow> error + heap \<times> addr" where
  "EC2NetworkInterface_clone h a env =
     (case CloneableResource_clone h a env of
        Inl e \<Rightarrow> Inl e
      | Inr (h1, c) \<Rightarrow>
          (let h2 = set_attr h1 c (set_public_ip [])
           in case attr_of h2 a security_groups of
                None \<Rightarrow> Inl (AttributeError ''EC2NetworkInterface'' ''security_groups'')
              | Some sg \<Rightarrow>
                  (case alloc h2 (objs h2 sg) of (h3, sg') \<Rightarrow>
                     Inr (set_attr h3 c (set_security_groups sg'), c))))"

text \<open>
  Reading \<open>self.attr\<close> where neither the object nor any class above it defines
  \<open>attr\<close>: Python raises \<open>AttributeError\<close>, naming the class of the object.
\<close>

definition getattr_undefined :: "heap \<Rightarrow> addr \<Rightarrow> string \<Rightarrow> error + 'a" where
  "getattr_undefined h a attr =
     (case ress h a of
        None \<Rightarrow> Inl (Unallocated a)
      | Some self \<Rightarrow> Inl (AttributeError (class_name (product self)) attr))"

text \<open>
  The \<open>clone\<close> methods of gcp_products.py and onprem_products.py do not call
  \<open>super().clone()\<close>. Each begins with \<open>if not self._prepare_for_cloning():\<close>, and no
  class above it (\<open>VirtualMachine\<close>, \<open>Database\<close>, \<open>LoadBalancer\<close>, \<open>Storage\<close>,
  \<open>CloudResource\<close>, \<open>CloneableResource\<close>, \<open>Prototype\<close>) nor the class itself defines
  \<open>_prepare_for_cloning\<close>: evaluating the condition raises before anything is copied
  or changed, and the rest of the body (which reads \<open>self.id\<close> and calls
  \<open>_generate_clone_id\<close> and \<open>_update_clone_metadata\<close>, defined nowhere either) is
  never reached.
\<close>

definition ComputeEngineInstance_clone ::
  "heap \<Rightarrow> addr \<Rightarrow> clone_env \<Rightarrow> error + heap \<times> addr" where
  "ComputeEngineInstance_clone h a env = getattr_undefined h a ''_prepare_for_cloning''"

definition CloudSQLDatabase_clone :: "heap \<Rightarrow> addr \<Rightarrow> clone_env \<Rightarrow> error + heap \<times> addr" where
  "CloudSQLDatabase_clone h a env = getattr_undefined h a ''_prepare_for_cloning''"

definition CloudLoadBalancer_clone :: "heap \<Rightarrow> addr \<Rightarrow> clone_env \<Rightarrow> error + heap \<times> addr" where
  "CloudLoadBalancer_clone h a env = getattr_undefined h a ''_prepare_for_cloning''"

definition CloudStorage_clone :: "heap \<Rightarrow> addr \<Rightarrow> clone_env \<Rightarrow> error + heap \<times> addr" where
  "CloudStorage_clone h a env = getattr_undefined h a ''_prepare_for_cloning''"

definition OnPremiseVirtualMachine_clone ::
  "heap \<Rightarrow> addr \<Rightarrow> clone_env \<Rightarrow> error + heap \<times> addr" where
  "OnPremiseVirtualMachine_clone h a env = getattr_undefined h a ''_prepare_for_cloning''"

definition OnPremiseDatabase_clone :: "heap \<Rightarrow> addr \<Rightarrow> clone_env \<Rightarrow> error + heap \<times> addr" where
  "OnPremiseDatabase_clone h a env = getattr_undefined h a ''_prepare_for_cloning''"

definition OnPremiseLoadBalancer_clone ::
  "heap \<Rightarrow> addr \<Rightarrow> clone_env \<Rightarrow> error + heap \<times> addr" where
  "OnPremiseLoadBalancer_clone h a env = getattr_undefined h a ''_prepare_for_cloning''"

definition OnPremiseStorage_clone :: "heap \<Rightarrow> addr \<Rightarrow> clone_env \<Rightarrow> error + heap \<times> addr" where
  "OnPremiseStorage_clone h a env = getattr_undefined h a ''_prepare_for_cloning''"

text \<open>\<open>resource.clone()\<close>: the method of the object's class.\<close>

definition clone :: "heap \<Rightarrow> addr \<Rightarrow> clone_env \<Rightarrow> error + heap \<times> addr" where
  "clone h a env =
     (case ress h a of
        None \<Rightarrow> Inl (Unallocated a)
      | Some self \<Rightarrow>
          (case product self of
             EC2Instance _ _ _ _ _ _ _ \<Rightarrow> EC2Instance_clone h a env
           | RDSDatabase _ _ _ _ _ \<Rightarrow> RDSDatabase_clone h a env
           | ApplicationLoadBalancer _ _ _ _ _ \<Rightarrow> ApplicationLoadBalancer_clone h a env
           | S3Storage _ _ _ _ \<Rightarrow> S3Storage_clone h a env
           | EC2NetworkInterface _ _ _ \<Rightarrow> EC2NetworkInterface_clone h a env
           | ComputeEngineInstance _ _ _ _ \<Rightarrow> ComputeEngineInstance_clone h a env
           | CloudSQLDatabase _ _ _ _ \<Rightarrow> CloudSQLDatabase_clone h a env
           | CloudLoadBalancer _ _ \<Rightarrow> CloudLoadBalancer_clone h a env
           | CloudStorage _ _ _ \<Rightarrow> CloudStorage_clone h a env
           | OnPremiseVirtualMachine _ _ _ _ _ _ _ \<Rightarrow> OnPremiseVirtualMachine_clone h a env
           | OnPremiseDatabase _ _ _ _ _ _ \<Rightarrow> OnPremiseDatabase_clone h a env
           | OnPremiseLoadBalancer _ _ _ _ _ \<Rightarrow> OnPremiseLoadBalancer_clone h a env
           | OnPremiseStorage _ _ _ _ _ _ \<Rightarrow> OnPremiseStorage_clone h a env))"

section \<open>PrototypeManager\<close>

text \<open>
  \<open>PrototypeMetadata\<close> (prototype.py, lines 127 to 155). Its attributes \<open>name\<close>,
  \<open>description\<close>, \<open>category\<close>, \<open>tags\<close> and \<open>created_at\<close> carry the prefix \<open>md_\<close>
  here, the resource having attributes of the same names.
\<close>

record PrototypeMetadata =
  md_name :: string
  md_description :: string
  md_category :: string
  md_tags :: "(string \<times> string) list"
  md_created_at :: int
  usage_count :: int

text \<open>
  The three dictionaries of the manager. A Python dictionary keeps its keys in insertion
  order: an association list, where \<open>d[k] = v\<close> is \<open>AList.update\<close> (in place for a key
  that is there, at the end for a new one) and \<open>del d[k]\<close> is \<open>AList.delete\<close>. The
  values of \<open>_prototypes\<close> are references to the registered objects.
\<close>

record PrototypeManager =
  prototypes :: "(string \<times> addr) list"
  metadata :: "(string \<times> PrototypeMetadata) list"
  categories :: "(string \<times> string list) list"

definition empty_manager :: PrototypeManager where
  "empty_manager = \<lparr>prototypes = [], metadata = [], categories = []\<rparr>"

text \<open>\<open>PrototypeMetadata.__init__\<close>: \<open>tags or {}\<close>.\<close>

definition new_metadata ::
  "string \<Rightarrow> string \<Rightarrow> string \<Rightarrow> (string \<times> string) list option \<Rightarrow> int \<Rightarrow> PrototypeMetadata" where
  "new_metadata nm descr cat tgs now =
     \<lparr>md_name = nm, md_description = descr, md_category = cat,
      md_tags = (case tgs of None \<Rightarrow> [] | Some t \<Rightarrow> t),
      md_created_at = now, usage_count = 0\<rparr>"

text \<open>
  \<open>PrototypeManager.register_prototype\<close> (prototype_service.py, lines 53 to 90), with
  the \<open>uuid.uuid4().hex\<close> string and the reading of \<open>datetime.now()\<close> it draws.
\<close>

definition register_prototype ::
  "heap \<Rightarrow> PrototypeManager \<Rightarrow> addr \<Rightarrow> string \<Rightarrow> string \<Rightarrow> string \<Rightarrow>
     (string \<times> string) list option \<Rightarrow> string \<Rightarrow> int \<Rightarrow> heap \<times> PrototypeManager \<times> string" where
  "register_prototype h mg prototype nm descr cat tgs uuid now =
     (let pid = ''proto-'' @ take 8 uuid;
          h' = mark_as_prototype h prototype (Some nm);
          md = new_metadata nm descr cat tgs now;
          ps = AList.update pid prototype (prototypes mg);
          ms = AList.update pid md (metadata mg);
          cs = (if map_of (categories mg) cat = None
                then AList.update cat [] (categories mg) else categories mg);
          cs' = (case map_of cs cat of
                   None \<Rightarrow> cs
                 | Some ids \<Rightarrow> AList.update cat (ids @ [pid]) cs)
      in (h', mg\<lparr>prototypes := ps, metadata := ms, categories := cs'\<rparr>, pid))"

definition get_prototype :: "PrototypeManager \<Rightarrow> string \<Rightarrow> addr option" where
  "get_prototype mg pid = map_of (prototypes mg) pid"

text \<open>\<open>prototype.can_be_cloned()\<close> on the object at an address.\<close>

definition can_be_cloned_at :: "heap \<Rightarrow> addr \<Rightarrow> bool" where
  "can_be_cloned_at h a = (case ress h a of None \<Rightarrow> False | Some r \<Rightarrow> can_be_cloned r)"

text \<open>
  \<open>PrototypeManager.clone_prototype\<close> (prototype_service.py, lines 104 to 136).
  The result \<open>None\<close> is Python's \<open>None\<close>; an exception of \<open>clone\<close> passes through. An
  empty \<open>new_name\<close> is falsy, as is \<open>None\<close>.
\<close>

definition clone_prototype ::
  "heap \<Rightarrow> PrototypeManager \<Rightarrow> string \<Rightarrow> string option \<Rightarrow> clone_env \<Rightarrow>
     error + heap \<times> PrototypeManager \<times> addr option" where
  "clone_prototype h mg pid new_name env =
     (case get_prototype mg pid of
        None \<Rightarrow> Inr (h, mg, None)
      | Some prototype \<Rightarrow>
          if \<not> can_be_cloned_at h prototype then Inr (h, mg, None)
          else
            (case clone h prototype env of
               Inl e \<Rightarrow> Inl e
             | Inr (h1, cloned) \<Rightarrow>
                 (let h2 = (case new_name of
                              None \<Rightarrow> h1
                            | Some n \<Rightarrow> if n = [] then h1
                                        else upd_res h1 cloned (\<lambda>c. c\<lparr>name := n\<rparr>));
                      mg' = (case map_of (metadata mg) pid of
                               None \<Rightarrow> mg
                             | Some md \<Rightarrow>
                                 mg\<lparr>metadata :=
                                      AList.update pid (md\<lparr>usage_count := usage_count md + 1\<rparr>)
                                        (metadata mg)\<rparr>)
                  in Inr (h2, mg', Some cloned))))"

text \<open>\<open>PrototypeManager.remove_prototype\<close> (prototype_service.py, lines 217 to 246).\<close>

definition remove_prototype :: "PrototypeManager \<Rightarrow> string \<Rightarrow> PrototypeManager \<times> bool" where
  "remove_prototype mg pid =
     (if map_of (prototypes mg) pid = None then (mg, False)
      else
        (let cs = (case map_of (metadata mg) pid of
                     None \<Rightarrow> categories mg
                   | Some md \<Rightarrow>
                       (case map_of (categories mg) (md_category md) of
                          None \<Rightarrow> categories mg
                        | Some ids \<Rightarrow>
                            AList.update (md_category md) (filter (\<lambda>p. p \<noteq> pid) ids)
                              (categories mg)))
         in (mg\<lparr>prototypes := AList.delete pid (prototypes mg),
                metadata := AList.delete pid (metadata mg),
                categories := cs\<rparr>, True)))"

subsection \<open>Statistics\<close>

text \<open>The dictionary \<open>most_used\<close> with its keys \<open>prototype_id\<close>, \<open>name\<close> and
  \<open>usage_count\<close>.\<close>

record most_used =
  mu_prototype_id :: string
  mu_name :: string
  mu_usage_count :: int

record statistics =
  total_prototypes :: nat
  total_clones_created :: int
  categories_stats :: "(string \<times> nat \<times> int) list"
  most_used_prototype :: "most_used option"

text \<open>\<open>sum(...)\<close>: additions from the left, starting at 0.\<close>

definition py_sum :: "int list \<Rightarrow> int" where
  "py_sum xs = foldl (+) 0 xs"

text \<open>\<open>p.clone_count\<close> of the object at an address.\<close>

definition clone_count_at :: "heap \<Rightarrow> addr \<Rightarrow> int" where
  "clone_count_at h a = (case ress h a of None \<Rightarrow> 0 | Some r \<Rightarrow> clone_count r)"

text \<open>The loop over \<open>self._metadata.items()\<close> that keeps \<open>most_used\<close> and
  \<open>max_usage\<close>.\<close>

fun most_used_loop ::
  "(string \<times> PrototypeMetadata) list \<Rightarrow> most_used option \<times> int \<Rightarrow> most_used option \<times> int" where
  "most_used_loop [] acc = acc"
| "most_used_loop ((pid, md) # rest) (most, max_usage) =
     (if usage_count md > max_usage
      then most_used_loop rest
             (Some \<lparr>mu_prototype_id = pid, mu_name = md_name md,
                    mu_usage_count = usage_count md\<rparr>, usage_count md)
      else most_used_loop rest (most, max_usage))"

text \<open>\<open>PrototypeManager.get_statistics\<close> (prototype_service.py, lines 257 to 294).\<close>

definition get_statistics :: "heap \<Rightarrow> PrototypeManager \<Rightarrow> statistics" where
  "get_statistics h mg =
     \<lparr>total_prototypes = length (prototypes mg),
      total_clones_created = py_sum (map (\<lambda>(pid, p). clone_count_at h p) (prototypes mg)),
      categories_stats =
        map (\<lambda>(category, prototype_ids).
               (category, length prototype_ids,
                py_sum (map (\<lambda>pid. clone_count_at h (the (map_of (prototypes mg) pid)))
                          (filter (\<lambda>pid. map_of (prototypes mg) pid \<noteq> None) prototype_ids))))
            (categories mg),
      most_used_prototype = fst (most_used_loop (metadata mg) (None, 0))\<rparr>"

text \<open>
  The statistic as the specification words it: the entry with the highest usage count,
  the first such entry in iteration order, and none when no entry has been used.
\<close>

definition most_used_spec :: "(string \<times> PrototypeMetadata) list \<Rightarrow> most_used option" where
  "most_used_spec ms =
     (if \<forall>e \<in> set ms. usage_count (snd e) = 0 then None
      else
        (case find (\<lambda>e. \<forall>e' \<in> set ms. usage_count (snd e') \<le> usage_count (snd e)) ms of
           None \<Rightarrow> None
         | Some (pid, md) \<Rightarrow>
             Some \<lparr>mu_prototype_id = pid, mu_name = md_name md,
                   mu_usage_count = usage_count md\<rparr>))"

subsection \<open>The clone endpoint\<close>

text \<open>
  \<open>clone_prototype\<close> of prototype_controller.py, lines 99 to 117 and the handlers of
  lines 141 to 148: the comparison of the two identifiers, the call of the manager and
  the status of each failure. What follows a successful call (merging the custom tags,
  storing the clone, building the response) is not part of this model.
\<close>

datatype http_error = HTTPException nat string

fun error_str :: "error \<Rightarrow> string" where
  "error_str (AttributeError c a) =
     [CHR 0x27] @ c @ [CHR 0x27] @ '' object has no attribute '' @ [CHR 0x27] @ a @ [CHR 0x27]"
| "error_str (KeyError m) = [CHR 0x27] @ m @ [CHR 0x27]"
| "error_str (Unallocated a) = []"

definition clone_prototype_endpoint ::
  "heap \<Rightarrow> PrototypeManager \<Rightarrow> string \<Rightarrow> string \<Rightarrow> string option \<Rightarrow> clone_env \<Rightarrow>
     http_error + heap \<times> PrototypeManager \<times> addr" where
  "clone_prototype_endpoint h mg url_id request_id new_name env =
     (if url_id \<noteq> request_id
      then Inl (HTTPException 400 ''Prototype ID in URL does not match request body'')
      else
        (case clone_prototype h mg url_id new_name env of
           Inl e \<Rightarrow> Inl (HTTPException 500 (''Failed to clone prototype: '' @ error_str e))
         | Inr (h', mg', None) \<Rightarrow>
             Inl (HTTPException 404
                    (''Prototype with ID '' @ url_id @ '' not found or cannot be cloned''))
         | Inr (h', mg', Some cloned) \<Rightarrow> Inr (h', mg', cloned)))"

section \<open>VMRepository\<close>

text \<open>
  The two dictionaries of repository.py. The class of the stored DTOs is declared
  outside the files at hand, so whether a DTO is truthy (\<open>if not vm\<close>) is the parameter
  \<open>truthy\<close>; the products store holds whatever object was stored.
\<close>

record ('dto, 'obj) VMRepository =
  store :: "string \<Rightarrow> 'dto option"
  products_store :: "string \<Rightarrow> 'obj option"

datatype ('dto, 'obj) stored = Product 'obj | DTO 'dto

text \<open>\<open>VMRepository.get\<close> (repository.py, lines 39 to 47).\<close>

definition VMRepository_get ::
  "('dto \<Rightarrow> bool) \<Rightarrow> ('dto, 'obj) VMRepository \<Rightarrow> string \<Rightarrow> error + ('dto, 'obj) stored" where
  "VMRepository_get truthy repo vm_id =
     (case products_store repo vm_id of
        Some p \<Rightarrow> Inr (Product p)
      | None \<Rightarrow>
          (case store repo vm_id of
             None \<Rightarrow> Inl (KeyError ''VM not found'')
           | Some vm \<Rightarrow> if \<not> truthy vm then Inl (KeyError ''VM not found'') else Inr (DTO vm)))"

text \<open>\<open>VMRepository.delete\<close> (repository.py, lines 49 to 59): the two steps, each
  setting \<open>removed\<close>.\<close>

definition VMRepository_delete ::
  "('dto, 'obj) VMRepository \<Rightarrow> string \<Rightarrow> error + ('dto, 'obj) VMRepository" where
  "VMRepository_delete repo vm_id =
     (let (r1, removed1) = (if store repo vm_id \<noteq> None
                            then (repo\<lparr>store := (store repo)(vm_id := None)\<rparr>, True)
                            else (repo, False));
          (r2, removed2) = (if products_store r1 vm_id \<noteq> None
                            then (r1\<lparr>products_store := (products_store r1)(vm_id := None)\<rparr>, True)
                            else (r1, removed1))
      in if \<not> removed2 then Inl (KeyError ''VM not found'') else Inr r2)"

section \<open>Mutating a listener through a reference\<close>

text \<open>
  \<open>resource.listeners[i]\<close>, and \<open>d[k] = v\<close> and \<open>d.get(k)\<close> on an inner dictionary:
  what a caller does to change the configuration of one listener.
\<close>

definition listener_at :: "heap \<Rightarrow> addr \<Rightarrow> nat \<Rightarrow> addr option" where
  "listener_at h a i =
     (case attr_of h a listeners of
        None \<Rightarrow> None
      | Some ls \<Rightarrow>
          (case objs h ls of
             Some (RefList ds) \<Rightarrow> if i < length ds then Some (ds ! i) else None
           | _ \<Rightarrow> None))"

definition set_item :: "heap \<Rightarrow> addr \<Rightarrow> string \<Rightarrow> pyval \<Rightarrow> heap" where
  "set_item h d k v =
     (case objs h d of
        Some (AnyDict kvs) \<Rightarrow> h\<lparr>objs := (objs h)(d \<mapsto> AnyDict (AList.update k v kvs))\<rparr>
      | _ \<Rightarrow> h)"

definition get_item :: "heap \<Rightarrow> addr \<Rightarrow> string \<Rightarrow> pyval option" where
  "get_item h d k = (case objs h d of Some (AnyDict kvs) \<Rightarrow> map_of kvs k | _ \<Rightarrow> None)"

section \<open>Notions used in the statements\<close>

text \<open>
  The allocator hands out addresses nothing lives at: every address from \<open>lim\<close> on is
  free.
\<close>

definition wf_heap :: "heap \<Rightarrow> bool" where
  "wf_heap h = (\<forall>a. lim h \<le> a \<longrightarrow> ress h a = None \<and> objs h a = None)"

text \<open>\<open>heap_ext h h'\<close>: \<open>h'\<close> comes from \<open>h\<close> by allocating containers only.\<close>

definition heap_ext :: "heap \<Rightarrow> heap \<Rightarrow> bool" where
  "heap_ext h h' =
     (ress h' = ress h \<and> lim h \<le> lim h' \<and> (\<forall>a. a < lim h \<longrightarrow> objs h' a = objs h a)
      \<and> (wf_heap h \<longrightarrow> wf_heap h'))"

text \<open>The classes whose \<open>clone\<close> starts with \<open>super().clone()\<close>: those of
  aws_products.py.\<close>

fun calls_super_clone :: "product \<Rightarrow> bool" where
  "calls_super_clone (EC2Instance _ _ _ _ _ _ _) = True"
| "calls_super_clone (RDSDatabase _ _ _ _ _) = True"
| "calls_super_clone (ApplicationLoadBalancer _ _ _ _ _) = True"
| "calls_super_clone (S3Storage _ _ _ _) = True"
| "calls_super_clone (EC2NetworkInterface _ _ _) = True"
| "calls_super_clone p = False"

text \<open>
  The attributes \<open>CloneableResource.clone\<close> writes on the copy (\<open>cloned_base\<close>) and on
  the source (\<open>source_after\<close>), and what holds of the store after a clone of the
  resource \<open>r\<close> at \<open>a\<close> that returned the object at \<open>c\<close> (\<open>clone_post\<close>).
\<close>

definition cloned_base :: "resource \<Rightarrow> clone_env \<Rightarrow> resource" where
  "cloned_base r env = r
     \<lparr>prototype_id := ''proto-'' @ take 8 (uuid_prototype env),
      is_prototype := False,
      cloned_from := Some (prototype_id r),
      clone_count := 0,
      created_at := now_created env,
      last_cloned_at := None,
      resource_id := split_first (resource_id r) @ ''-'' @ take 8 (uuid_resource env)\<rparr>"

definition source_after :: "resource \<Rightarrow> clone_env \<Rightarrow> resource" where
  "source_after r env = r\<lparr>clone_count := clone_count r + 1, last_cloned_at := Some (now_cloned env)\<rparr>"

definition clone_post :: "heap \<Rightarrow> addr \<Rightarrow> resource \<Rightarrow> clone_env \<Rightarrow> heap \<Rightarrow> addr \<Rightarrow> bool" where
  "clone_post h a r env h' c =
     (lim h \<le> c \<and> c < lim h' \<and> a \<noteq> c \<and> wf_heap h' \<and>
      ress h' a = Some (source_after r env) \<and>
      (\<exists>t' p'. lim h \<le> t' \<and> class_name p' = class_name (product r) \<and>
         ress h' c = Some ((cloned_base r env)\<lparr>tags := t', product := p'\<rparr>)) \<and>
      (\<forall>b. b \<noteq> a \<longrightarrow> b \<noteq> c \<longrightarrow> ress h' b = ress h b) \<and>
      (\<forall>b. b < lim h \<longrightarrow> objs h' b = objs h b))"


text \<open>The dictionary the loop of \<open>get_statistics\<close> builds for an entry.\<close>

definition most_used_entry :: "string \<times> PrototypeMetadata \<Rightarrow> most_used" where
  "most_used_entry e =
     \<lparr>mu_prototype_id = fst e, mu_name = md_name (snd e), mu_usage_count = usage_count (snd e)\<rparr>"

text \<open>
  The registry as three maps: the identifiers with metadata are the identifiers with a
  prototype; the list of an entry's category holds its identifier once; and a list holds
  only identifiers whose entry has that category.
\<close>

definition inv_maps ::
  "(string \<rightharpoonup> addr) \<Rightarrow> (string \<rightharpoonup> PrototypeMetadata) \<Rightarrow> (string \<rightharpoonup> string list) \<Rightarrow> bool" where
  "inv_maps P M C =
     (dom M = dom P
      \<and> (\<forall>pid md. M pid = Some md \<longrightarrow>
            0 \<le> usage_count md
            \<and> (\<exists>ids. C (md_category md) = Some ids \<and> count_list ids pid = 1))
      \<and> (\<forall>c ids pid. C c = Some ids \<longrightarrow> pid \<in> set ids \<longrightarrow>
            (\<exists>md. M pid = Some md \<and> md_category md = c)))"

definition registry_inv :: "PrototypeManager \<Rightarrow> bool" where
  "registry_inv mg =
     (distinct (map fst (prototypes mg)) \<and> distinct (map fst (metadata mg))
      \<and> distinct (map fst (categories mg))
      \<and> inv_maps (map_of (prototypes mg)) (map_of (metadata mg)) (map_of (categories mg)))"


text \<open>
  The states of the registry and the store: the empty registry, and what
  \<open>register_prototype\<close> (with newly drawn digits, giving an identifier not in use),
  \<open>clone_prototype\<close> and \<open>remove_prototype\<close> make of a reachable state; the rest of the
  program may change the store in between.
\<close>

inductive reachable :: "heap \<times> PrototypeManager \<Rightarrow> bool" where
  initial: "reachable (h, empty_manager)"
| world: "reachable (h, mg) \<Longrightarrow> reachable (h', mg)"
| register:
    "reachable (h, mg) \<Longrightarrow> ''proto-'' @ take 8 uuid \<notin> fst ` set (prototypes mg) \<Longrightarrow>
     register_prototype h mg p nm descr cat tgs uuid now = (h', mg', pid) \<Longrightarrow>
     reachable (h', mg')"
| clone:
    "reachable (h, mg) \<Longrightarrow> clone_prototype h mg pid new_name env = Inr (h', mg', res) \<Longrightarrow>
     reachable (h', mg')"
| remove:
    "reachable (h, mg) \<Longrightarrow> remove_prototype mg pid = (mg', b) \<Longrightarrow> reachable (h, mg')"

section \<open>Example states\<close>

text \<open>
  An EC2 instance \<open>i-abc123\<close> at address 2, with its tag map at 0 and its security groups
  at 1, in a given lifecycle status; the values a clone draws; a registry that holds the
  instance under \<open>proto-22222222\<close>; and a repository.
\<close>

definition ex_env :: clone_env where
  "ex_env = \<lparr>uuid_resource = ''0123456789abcdef0123456789abcdef'',
             uuid_prototype = ''fedcba9876543210fedcba9876543210'',
             now_created = 10, now_cloned = 11\<rparr>"

definition ex_resource :: "ResourceStatus \<Rightarrow> resource" where
  "ex_resource st =
     \<lparr>prototype_id = ''proto-11111111'', is_prototype = False, cloned_from = None,
      clone_count = 0, created_at = 5, last_cloned_at = None, resource_id = ''i-abc123'',
      name = ''web'', region = ''us-east-1'', status = st, tags = 0,
      product = EC2Instance ''t2.micro'' ''ami-1'' ''vpc-1'' 1 ''key'' ''10.0.0.1''
                  ''54.1.1.1''\<rparr>"

definition ex_heap :: "ResourceStatus \<Rightarrow> heap" where
  "ex_heap st =
     \<lparr>objs = (\<lambda>a. None)(0 \<mapsto> StrDict [(''env'', ''prod'')], 1 \<mapsto> StrList [''sg-1'']),
      ress = (\<lambda>a. None)(2 \<mapsto> ex_resource st),
      lim = 3\<rparr>"

definition ex_manager :: PrototypeManager where
  "ex_manager =
     \<lparr>prototypes = [(''proto-22222222'', 2)],
      metadata = [(''proto-22222222'', new_metadata ''web-template'' [] ''vm'' None 7)],
      categories = [(''vm'', [''proto-22222222''])]\<rparr>"

definition ex_repo :: "(string, nat) VMRepository" where
  "ex_repo = \<lparr>store = (\<lambda>i. None)(''vm-1'' \<mapsto> ''dto-1'', ''i-abc123'' \<mapsto> ''dto-2''),
              products_store = (\<lambda>i. None)(''i-abc123'' \<mapsto> 2)\<rparr>"

text \<open>The instance after three clones, the last at time 9; and the digits the registry
  draws for its identifier.\<close>

definition ex_heap_cloned :: heap where
  "ex_heap_cloned =
     (ex_heap RUNNING)\<lparr>ress := (\<lambda>a. None)(2 \<mapsto> (ex_resource RUNNING)
        \<lparr>clone_count := 3, last_cloned_at := Some 9\<rparr>)\<rparr>"

definition ex_uuid :: string where
  "ex_uuid = ''22222222333344445555666677778888''"

text \<open>
  A load balancer at address 4 with one target and one listener, the dictionary at 2;
  and a Compute Engine instance at address 1.
\<close>

definition ex_alb :: heap where
  "ex_alb =
     \<lparr>objs = (\<lambda>a. None)(0 \<mapsto> StrDict [], 1 \<mapsto> StrList [''i-1''],
                          2 \<mapsto> AnyDict [(''port'', VInt 80)], 3 \<mapsto> RefList [2]),
      ress = (\<lambda>a. None)(4 \<mapsto>
        \<lparr>prototype_id = ''proto-33333333'', is_prototype = False, cloned_from = None,
         clone_count = 0, created_at = 5, last_cloned_at = None,
         resource_id = ''alb-12345678'', name = ''web-lb'', region = ''us-east-1'',
         status = RUNNING, tags = 0,
         product = ApplicationLoadBalancer ''vpc-1'' ''internet-facing'' 1 3
                     ''web-lb-12345678.us-east-1.elb.amazonaws.com''\<rparr>),
      lim = 5\<rparr>"

definition ex_gcp :: heap where
  "ex_gcp =
     \<lparr>objs = (\<lambda>a. None)(0 \<mapsto> StrDict []),
      ress = (\<lambda>a. None)(1 \<mapsto>
        \<lparr>prototype_id = ''proto-44444444'', is_prototype = False, cloned_from = None,
         clone_count = 0, created_at = 5, last_cloned_at = None,
         resource_id = ''gcp-vm-12345678'', name = ''gcp-instance-1'', region = ''us-central1'',
         status = RUNNING, tags = 0,
         product = ComputeEngineInstance ''us-central1-a'' ''e2-standard-2'' 20
                     ''my-gcp-project''\<rparr>),
      lim = 2\<rparr>"

text \<open>A registry that holds the cloned instance under three identifiers, used once,
  twice and twice.\<close>

definition ex_stats_manager :: PrototypeManager where
  "ex_stats_manager =
     \<lparr>prototypes = [(''proto-a'', 2), (''proto-b'', 2), (''proto-c'', 2)],
      metadata = [(''proto-a'', (new_metadata ''a'' [] ''vm'' None 7)\<lparr>usage_count := 1\<rparr>),
                  (''proto-b'', (new_metadata ''b'' [] ''vm'' None 7)\<lparr>usage_count := 2\<rparr>),
                  (''proto-c'', (new_metadata ''c'' [] ''vm'' None 7)\<lparr>usage_count := 2\<rparr>)],
      categories = [(''vm'', [''proto-a'', ''proto-b'', ''proto-c''])]\<rparr>"

section \<open>The store under copying and cloning\<close>

lemma heap_ext_refl: "heap_ext h h"
  by (simp add: heap_ext_def)

lemma heap_ext_trans: "heap_ext h1 h2 \<Longrightarrow> heap_ext h2 h3 \<Longrightarrow> heap_ext h1 h3"
  by (auto simp: heap_ext_def)

lemma alloc_ext: "alloc h c = (h', a) \<Longrightarrow> heap_ext h h' \<and> a = lim h \<and> lim h' = Suc (lim h) \<and> objs h' a = c"
  by (auto simp: alloc_def heap_ext_def wf_heap_def)

lemma copy_leaf_ext: "copy_leaf h m a = (h', m', a') \<Longrightarrow> heap_ext h h'"
  by (auto simp: copy_leaf_def heap_ext_refl split: option.splits prod.splits dest: alloc_ext)

lemma copy_refs_ext: "copy_refs h m as = (h', m', as') \<Longrightarrow> heap_ext h h'"
proof (induction as arbitrary: h m h' m' as')
  case Nil
  then show ?case by (simp add: heap_ext_refl)
next
  case (Cons a as)
  then show ?case
    by (auto split: prod.splits dest!: copy_leaf_ext intro: heap_ext_trans)
qed

lemma copy_items_ext: "copy_items h m kvs = (h', m', kvs') \<Longrightarrow> heap_ext h h'"
proof (induction kvs arbitrary: h m h' m' kvs')
  case Nil
  then show ?case by (simp add: heap_ext_refl)
next
  case (Cons kv kvs)
  then show ?case
    by (cases kv) (auto split: prod.splits dest!: copy_leaf_ext intro: heap_ext_trans)
qed

lemma deepcopy_obj_ext: "deepcopy_obj h m a = (h', m', a') \<Longrightarrow> heap_ext h h'"
  by (auto simp: deepcopy_obj_def heap_ext_refl split: option.splits prod.splits container.splits
      dest!: alloc_ext copy_refs_ext copy_items_ext intro: heap_ext_trans)

lemma deepcopy_product_ext:
  "deepcopy_product h m p = (h', m', p') \<Longrightarrow> heap_ext h h' \<and> class_name p' = class_name p \<and> calls_super_clone p' = calls_super_clone p"
  by (cases p) (auto simp: heap_ext_refl split: prod.splits dest!: deepcopy_obj_ext intro: heap_ext_trans)


lemma deepcopy_obj_fresh:
  "deepcopy_obj h [] a = (h', m', a') \<Longrightarrow> lim h \<le> a'"
  by (auto simp: deepcopy_obj_def heap_ext_def split: option.splits prod.splits container.splits
      dest!: alloc_ext copy_refs_ext copy_items_ext)

lemma deepcopy_post:
  assumes "wf_heap h" and "deepcopy h r = (h', c)"
  shows "lim h \<le> c \<and> lim h' = Suc c \<and> wf_heap h' \<and>
         (\<exists>t' p'. lim h \<le> t' \<and> class_name p' = class_name (product r) \<and>
            ress h' c = Some (r\<lparr>tags := t', product := p'\<rparr>)) \<and>
         (\<forall>b. b \<noteq> c \<longrightarrow> ress h' b = ress h b) \<and>
         (\<forall>b. b < lim h \<longrightarrow> objs h' b = objs h b)"
proof -
  obtain h1 m1 t' where t: "deepcopy_obj h [] (tags r) = (h1, m1, t')"
    by (metis prod_cases3)
  obtain h2 m2 p' where p: "deepcopy_product h1 m1 (product r) = (h2, m2, p')"
    by (metis prod_cases3)
  have e1: "heap_ext h h1" using t by (rule deepcopy_obj_ext)
  have e2: "heap_ext h1 h2" and cn: "class_name p' = class_name (product r)"
    using deepcopy_product_ext [OF p] by simp_all
  have e: "heap_ext h h2" using e1 e2 by (rule heap_ext_trans)
  have res: "h' = h2\<lparr>ress := (ress h2)(lim h2 \<mapsto> r\<lparr>tags := t', product := p'\<rparr>), lim := Suc (lim h2)\<rparr>"
    and c: "c = lim h2"
    using assms(2) t p by (auto simp: deepcopy_def)
  have w2: "wf_heap h2" using e assms(1) by (simp add: heap_ext_def)
  have "lim h \<le> t'" using t by (rule deepcopy_obj_fresh)
  with e w2 cn show ?thesis
    unfolding res c by (auto simp: heap_ext_def wf_heap_def)
qed

lemma base_clone_post:
  assumes "wf_heap h" and "ress h a = Some r"
  shows "\<exists>h' c. CloneableResource_clone h a env = Inr (h', c) \<and> clone_post h a r env h' c"
proof -
  obtain h1 c where d: "deepcopy h r = (h1, c)" by (metis surj_pair)
  note p = deepcopy_post [OF assms(1) d]
  have alt: "a < lim h" using assms by (auto simp: wf_heap_def not_le [symmetric])
  then have ac: "a \<noteq> c" using p by auto
  from p obtain t' p' where tp: "lim h \<le> t'" "class_name p' = class_name (product r)"
      "ress h1 c = Some (r\<lparr>tags := t', product := p'\<rparr>)" by blast
  have ra: "ress h1 a = Some r" using p ac assms(2) by simp
  have lims: "lim h \<le> c" "lim h1 = Suc c" "wf_heap h1" using p by simp_all
  have frame: "\<forall>b. b \<noteq> c \<longrightarrow> ress h1 b = ress h b" "\<forall>b. b < lim h \<longrightarrow> objs h1 b = objs h b"
    using p by simp_all
  define h3 where "h3 = upd_res (upd_res h1 c (\<lambda>cloned. cloned
                    \<lparr>prototype_id := ''proto-'' @ take 8 (uuid_prototype env),
                     is_prototype := False,
                     cloned_from := Some (prototype_id r),
                     clone_count := 0,
                     created_at := now_created env,
                     last_cloned_at := None,
                     resource_id := split_first (resource_id r) @ ''-''
                                      @ take 8 (uuid_resource env)\<rparr>)) a (\<lambda>s. s
                    \<lparr>clone_count := clone_count s + 1,
                     last_cloned_at := Some (now_cloned env)\<rparr>)"
  have run: "CloneableResource_clone h a env = Inr (h3, c)"
    by (simp add: CloneableResource_clone_def assms(2) d Let_def h3_def)
  have c1: "ress h3 a = Some (source_after r env)"
    using ra ac by (simp add: h3_def upd_res_def source_after_def)
  have c2: "ress h3 c = Some ((cloned_base r env)\<lparr>tags := t', product := p'\<rparr>)"
    using tp(3) ac by (simp add: h3_def upd_res_def cloned_base_def)
  have c3: "\<forall>b. b \<noteq> a \<longrightarrow> b \<noteq> c \<longrightarrow> ress h3 b = ress h b"
    using frame(1) by (simp add: h3_def upd_res_def)
  have c4: "objs h3 = objs h1" "lim h3 = lim h1"
    by (simp_all add: h3_def upd_res_def)
  have c5: "wf_heap h3"
    using lims(3) lims(2) by (auto simp: wf_heap_def c4 h3_def upd_res_def)
  have "clone_post h a r env h3 c"
    unfolding clone_post_def using lims ac c1 c2 c3 c4 c5 frame(2) tp(1,2) by auto
  with run show ?thesis by blast
qed


lemma class_name_setters:
  "class_name (set_private_ip s p) = class_name p"
  "class_name (set_public_ip s p) = class_name p"
  "class_name (set_security_groups x p) = class_name p"
  "class_name (set_endpoint s p) = class_name p"
  "class_name (set_targets x p) = class_name p"
  "class_name (set_listeners x p) = class_name p"
  "class_name (set_dns_name s p) = class_name p"
  "class_name (set_objects x p) = class_name p"
  "class_name (set_bucket_name s p) = class_name p"
  by (cases p; simp)+

lemma set_attr_post:
  assumes "clone_post h a r env h1 c" and "\<And>p. class_name (f p) = class_name p"
  shows "clone_post h a r env (set_attr h1 c f) c"
proof -
  from assms(1) obtain t' p' where tp: "lim h \<le> t'" "class_name p' = class_name (product r)"
      "ress h1 c = Some ((cloned_base r env)\<lparr>tags := t', product := p'\<rparr>)"
    unfolding clone_post_def by blast
  have c2: "ress (set_attr h1 c f) c = Some ((cloned_base r env)\<lparr>tags := t', product := f p'\<rparr>)"
    using tp(3) by (simp add: set_attr_def upd_res_def)
  have cn: "class_name (f p') = class_name (product r)" using assms(2) tp(2) by simp
  have rest: "lim (set_attr h1 c f) = lim h1" "objs (set_attr h1 c f) = objs h1"
    "\<And>b. b \<noteq> c \<Longrightarrow> ress (set_attr h1 c f) b = ress h1 b"
    by (simp_all add: set_attr_def upd_res_def)
  have wf: "wf_heap (set_attr h1 c f)"
    using assms(1) unfolding clone_post_def wf_heap_def
    by (auto simp: set_attr_def upd_res_def)
  show ?thesis
    unfolding clone_post_def rest(1,2)
    using assms(1) tp(1) cn c2 wf rest(3) unfolding clone_post_def by auto
qed

lemma alloc_post:
  assumes "clone_post h a r env h1 c" and "alloc h1 x = (h2, y)"
  shows "clone_post h a r env h2 c \<and> y = lim h1 \<and> objs h2 y = x"
proof -
  have h2: "h2 = h1\<lparr>objs := (objs h1)(lim h1 := x), lim := Suc (lim h1)\<rparr>" and y: "y = lim h1"
    using assms(2) by (auto simp: alloc_def)
  have "clone_post h a r env h2 c"
    using assms(1) unfolding clone_post_def h2 wf_heap_def by auto
  then show ?thesis using y h2 by simp
qed

lemma post_source:
  "clone_post h a r env h1 c \<Longrightarrow> ress h1 a = Some (source_after r env)"
  by (simp add: clone_post_def)

lemma post_clone_some:
  "clone_post h a r env h1 c \<Longrightarrow> \<exists>cl. ress h1 c = Some cl"
  by (auto simp: clone_post_def)

lemma EC2Instance_clone_post:
  assumes "wf_heap h" and "ress h a = Some r" and "product r = EC2Instance it ami vpc sg kp priv pub"
  shows "\<exists>h' c. EC2Instance_clone h a env = Inr (h', c) \<and> clone_post h a r env h' c"
proof -
  obtain h1 c where b: "CloneableResource_clone h a env = Inr (h1, c)" "clone_post h a r env h1 c"
    using base_clone_post [OF assms(1,2)] by blast
  define h3 where "h3 = set_attr (set_attr h1 c (set_private_ip [])) c (set_public_ip [])"
  have p3: "clone_post h a r env h3 c"
    unfolding h3_def by (intro set_attr_post b(2) class_name_setters)
  have sg: "attr_of h3 a security_groups = Some sg"
    using post_source [OF p3] assms(3) by (simp add: attr_of_def source_after_def)
  obtain h4 sg' where al: "alloc h3 (objs h3 sg) = (h4, sg')" by (metis surj_pair)
  have p4: "clone_post h a r env h4 c" using alloc_post [OF p3 al] by simp
  have p5: "clone_post h a r env (set_attr h4 c (set_security_groups sg')) c"
    by (intro set_attr_post p4 class_name_setters)
  have "EC2Instance_clone h a env = Inr (set_attr h4 c (set_security_groups sg'), c)"
    using b(1) sg al by (simp add: EC2Instance_clone_def Let_def h3_def)
  with p5 show ?thesis by blast
qed

lemma EC2NetworkInterface_clone_post:
  assumes "wf_heap h" and "ress h a = Some r" and "product r = EC2NetworkInterface iid sg pub"
  shows "\<exists>h' c. EC2NetworkInterface_clone h a env = Inr (h', c) \<and> clone_post h a r env h' c"
proof -
  obtain h1 c where b: "CloneableResource_clone h a env = Inr (h1, c)" "clone_post h a r env h1 c"
    using base_clone_post [OF assms(1,2)] by blast
  define h2 where "h2 = set_attr h1 c (set_public_ip [])"
  have p2: "clone_post h a r env h2 c"
    unfolding h2_def by (intro set_attr_post b(2) class_name_setters)
  have sg: "attr_of h2 a security_groups = Some sg"
    using post_source [OF p2] assms(3) by (simp add: attr_of_def source_after_def)
  obtain h3 sg' where al: "alloc h2 (objs h2 sg) = (h3, sg')" by (metis surj_pair)
  have p3: "clone_post h a r env h3 c" using alloc_post [OF p2 al] by simp
  have p4: "clone_post h a r env (set_attr h3 c (set_security_groups sg')) c"
    by (intro set_attr_post p3 class_name_setters)
  have "EC2NetworkInterface_clone h a env = Inr (set_attr h3 c (set_security_groups sg'), c)"
    using b(1) sg al by (simp add: EC2NetworkInterface_clone_def Let_def h2_def)
  with p4 show ?thesis by blast
qed

lemma RDSDatabase_clone_post:
  assumes "wf_heap h" and "ress h a = Some r"
  shows "\<exists>h' c. RDSDatabase_clone h a env = Inr (h', c) \<and> clone_post h a r env h' c"
proof -
  obtain h1 c where b: "CloneableResource_clone h a env = Inr (h1, c)" "clone_post h a r env h1 c"
    using base_clone_post [OF assms(1,2)] by blast
  obtain cl where cl: "ress h1 c = Some cl" using post_clone_some [OF b(2)] by blast
  have "clone_post h a r env
          (set_attr h1 c (set_endpoint (name cl @ ''.'' @ region cl @ ''.rds.amazonaws.com''))) c"
    by (intro set_attr_post b(2) class_name_setters)
  moreover have "RDSDatabase_clone h a env =
      Inr (set_attr h1 c (set_endpoint (name cl @ ''.'' @ region cl @ ''.rds.amazonaws.com'')), c)"
    using b(1) cl by (simp add: RDSDatabase_clone_def)
  ultimately show ?thesis by blast
qed

lemma S3Storage_clone_post:
  assumes "wf_heap h" and "ress h a = Some r"
  shows "\<exists>h' c. S3Storage_clone h a env = Inr (h', c) \<and> clone_post h a r env h' c"
proof -
  obtain h1 c where b: "CloneableResource_clone h a env = Inr (h1, c)" "clone_post h a r env h1 c"
    using base_clone_post [OF assms(1,2)] by blast
  obtain h2 ob' where al: "alloc h1 (Some (RefDict [])) = (h2, ob')" by (metis surj_pair)
  have p2: "clone_post h a r env h2 c" using alloc_post [OF b(2) al] by simp
  define h3 where "h3 = set_attr h2 c (set_objects ob')"
  have p3: "clone_post h a r env h3 c"
    unfolding h3_def by (intro set_attr_post p2 class_name_setters)
  obtain cl where cl: "ress h3 c = Some cl" using post_clone_some [OF p3] by blast
  have "clone_post h a r env (set_attr h3 c (set_bucket_name (name cl))) c"
    by (intro set_attr_post p3 class_name_setters)
  moreover have "S3Storage_clone h a env = Inr (set_attr h3 c (set_bucket_name (name cl)), c)"
    using b(1) al cl by (simp add: S3Storage_clone_def Let_def h3_def)
  ultimately show ?thesis by blast
qed

lemma ApplicationLoadBalancer_clone_post:
  assumes "wf_heap h" and "ress h a = Some r"
    and "product r = ApplicationLoadBalancer vpc sch tg ls dns"
  shows "\<exists>h' c. ApplicationLoadBalancer_clone h a env = Inr (h', c) \<and> clone_post h a r env h' c"
proof -
  obtain h1 c where b: "CloneableResource_clone h a env = Inr (h1, c)" "clone_post h a r env h1 c"
    using base_clone_post [OF assms(1,2)] by blast
  obtain h2 tg' where al: "alloc h1 (Some (StrList [])) = (h2, tg')" by (metis surj_pair)
  have p2: "clone_post h a r env h2 c" using alloc_post [OF b(2) al] by simp
  define h3 where "h3 = set_attr h2 c (set_targets tg')"
  have p3: "clone_post h a r env h3 c"
    unfolding h3_def by (intro set_attr_post p2 class_name_setters)
  have ls: "attr_of h3 a listeners = Some ls"
    using post_source [OF p3] assms(3) by (simp add: attr_of_def source_after_def)
  obtain h4 ls' where al2: "alloc h3 (objs h3 ls) = (h4, ls')" by (metis surj_pair)
  have p4: "clone_post h a r env h4 c" using alloc_post [OF p3 al2] by simp
  define h5 where "h5 = set_attr h4 c (set_listeners ls')"
  have p5: "clone_post h a r env h5 c"
    unfolding h5_def by (intro set_attr_post p4 class_name_setters)
  obtain cl where cl: "ress h5 c = Some cl" using post_clone_some [OF p5] by blast
  define h6 where "h6 = set_attr h5 c (set_dns_name (name cl @ ''-'' @ last8 (resource_id cl)
                                             @ ''.'' @ region cl @ ''.elb.amazonaws.com''))"
  have p6: "clone_post h a r env h6 c"
    unfolding h6_def by (intro set_attr_post p5 class_name_setters)
  have "ApplicationLoadBalancer_clone h a env = Inr (h6, c)"
    using b(1) al ls al2 cl
    by (simp add: ApplicationLoadBalancer_clone_def Let_def h3_def h5_def h6_def)
  with p6 show ?thesis by blast
qed

lemma clone_post_super:
  assumes "wf_heap h" and "ress h a = Some r" and "calls_super_clone (product r)"
  shows "\<exists>h' c. clone h a env = Inr (h', c) \<and> clone_post h a r env h' c"
proof (cases "product r")
  case (EC2Instance it ami vpc sg kp priv pub)
  then show ?thesis
    using EC2Instance_clone_post [OF assms(1,2) EC2Instance] by (simp add: clone_def assms(2))
next
  case (RDSDatabase x1 x2 x3 x4 x5)
  then show ?thesis
    using RDSDatabase_clone_post [OF assms(1,2)] by (simp add: clone_def assms(2))
next
  case (ApplicationLoadBalancer x1 x2 x3 x4 x5)
  then show ?thesis
    using ApplicationLoadBalancer_clone_post [OF assms(1,2) ApplicationLoadBalancer]
    by (simp add: clone_def assms(2))
next
  case (S3Storage x1 x2 x3 x4)
  then show ?thesis
    using S3Storage_clone_post [OF assms(1,2)] by (simp add: clone_def assms(2))
next
  case (EC2NetworkInterface x1 x2 x3)
  then show ?thesis
    using EC2NetworkInterface_clone_post [OF assms(1,2) EC2NetworkInterface]
    by (simp add: clone_def assms(2))
qed (use assms(3) in simp_all)

lemma clone_no_super:
  assumes "ress h a = Some r" and "\<not> calls_super_clone (product r)"
  shows "clone h a env = Inl (AttributeError (class_name (product r)) ''_prepare_for_cloning'')"
  using assms
  by (cases "product r")
     (simp_all add: clone_def getattr_undefined_def ComputeEngineInstance_clone_def
       CloudSQLDatabase_clone_def CloudLoadBalancer_clone_def CloudStorage_clone_def
       OnPremiseVirtualMachine_clone_def OnPremiseDatabase_clone_def
       OnPremiseLoadBalancer_clone_def OnPremiseStorage_clone_def)

lemma wf_ex_heap: "wf_heap (ex_heap st)"
  by (auto simp: wf_heap_def ex_heap_def)

section \<open>The resource store\<close>

text \<open>
  Claim C10. \<open>get\<close> returns the object of the products store when the identifier is
  there, whatever DTO is saved under it; otherwise the DTO; and it raises \<open>KeyError\<close>
  exactly when the identifier is in neither store. \<open>delete\<close> removes the identifier from
  both stores and raises \<open>KeyError\<close> exactly when it was in neither. The DTO under the
  identifier, if any, is truthy, as an object of a model class is.
\<close>

theorem VMRepository_get_delete:
  assumes "\<forall>d. store repo i = Some d \<longrightarrow> truthy d"
  shows "(\<forall>p. products_store repo i = Some p \<longrightarrow>
            VMRepository_get truthy repo i = Inr (Product p))
       \<and> (\<forall>d. products_store repo i = None \<longrightarrow> store repo i = Some d \<longrightarrow>
            VMRepository_get truthy repo i = Inr (DTO d))
       \<and> (VMRepository_get truthy repo i = Inl (KeyError ''VM not found'')
            \<longleftrightarrow> products_store repo i = None \<and> store repo i = None)
       \<and> (VMRepository_delete repo i = Inl (KeyError ''VM not found'')
            \<longleftrightarrow> products_store repo i = None \<and> store repo i = None)
       \<and> (products_store repo i \<noteq> None \<or> store repo i \<noteq> None \<longrightarrow>
            VMRepository_delete repo i =
              Inr (repo\<lparr>store := (store repo)(i := None),
                        products_store := (products_store repo)(i := None)\<rparr>))"
  using assms
  by (cases repo)
     (auto simp: VMRepository_get_def VMRepository_delete_def fun_upd_idem split: option.splits)

theorem VMRepository_get_delete_witness:
  "VMRepository_get (\<lambda>d. d \<noteq> []) ex_repo ''i-abc123'' = Inr (Product 2)
   \<and> VMRepository_get (\<lambda>d. d \<noteq> []) ex_repo ''vm-1'' = Inr (DTO ''dto-1'')
   \<and> VMRepository_get (\<lambda>d. d \<noteq> []) ex_repo ''vm-2'' = Inl (KeyError ''VM not found'')
   \<and> VMRepository_delete ex_repo ''vm-2'' = Inl (KeyError ''VM not found'')
   \<and> VMRepository_delete ex_repo ''i-abc123'' =
        Inr (ex_repo\<lparr>store := (store ex_repo)(''i-abc123'' := None),
                     products_store := (products_store ex_repo)(''i-abc123'' := None)\<rparr>)"
  using VMRepository_get_delete [of ex_repo "''i-abc123''" "\<lambda>d. d \<noteq> []"]
    VMRepository_get_delete [of ex_repo "''vm-1''" "\<lambda>d. d \<noteq> []"]
    VMRepository_get_delete [of ex_repo "''vm-2''" "\<lambda>d. d \<noteq> []"]
  by (simp add: ex_repo_def)

section \<open>Cloning and the lifecycle status\<close>

text \<open>
  Claim C2, as stated, fails: \<open>clone\<close> does not look at the status. The instance in
  status \<open>deleting\<close> is cloned, its \<open>clone_count\<close> goes from 0 to 1 and its
  \<open>last_cloned_at\<close> is set.
\<close>

theorem clone_ignores_status_counterexample:
  "status (ex_resource DELETING) = DELETING \<and> ress (ex_heap DELETING) 2 = Some (ex_resource DELETING)
   \<and> (case clone (ex_heap DELETING) 2 ex_env of
         Inl e \<Rightarrow> False
       | Inr (h', c) \<Rightarrow>
           map_option clone_count (ress h' 2) = Some 1
           \<and> map_option last_cloned_at (ress h' 2) = Some (Some 11)
           \<and> map_option status (ress h' c) = Some DELETING)"
  by (simp add: ex_heap_def ex_resource_def ex_env_def clone_def EC2Instance_clone_def
      CloneableResource_clone_def deepcopy_def deepcopy_obj_def alloc_def upd_res_def
      set_attr_def attr_of_def split_first_def)

text \<open>
  Claim C2, amended. A resource in status \<open>deleting\<close> or \<open>error\<close> reports that it
  cannot be cloned, and \<open>clone_prototype\<close> on a registry entry that holds it returns
  \<open>None\<close> and leaves the store and the registry as they were: the source keeps its
  \<open>clone_count\<close> and its \<open>last_cloned_at\<close>.
\<close>

theorem clone_prototype_refuses_status:
  assumes "ress h a = Some r" and "status r = DELETING \<or> status r = ERROR"
    and "get_prototype mg pid = Some a"
  shows "\<not> can_be_cloned r \<and> clone_prototype h mg pid new_name env = Inr (h, mg, None)"
  using assms by (auto simp: can_be_cloned_def clone_prototype_def can_be_cloned_at_def)

theorem clone_prototype_refuses_status_witness:
  "\<not> can_be_cloned (ex_resource DELETING)
   \<and> clone_prototype (ex_heap DELETING) ex_manager ''proto-22222222'' None ex_env
       = Inr (ex_heap DELETING, ex_manager, None)"
  using clone_prototype_refuses_status [of "ex_heap DELETING" 2 "ex_resource DELETING" ex_manager
      "''proto-22222222''" None ex_env]
  by (simp add: ex_heap_def ex_resource_def ex_manager_def get_prototype_def)

text \<open>
  Claim C3, as stated, fails: for an identifier that is absent and for one whose
  prototype is in status \<open>error\<close>, \<open>clone_prototype\<close> returns the same value, and the
  endpoint answers 404 to both.
\<close>

theorem clone_prototype_failures_counterexample:
  "get_prototype ex_manager ''proto-99999999'' = None
   \<and> get_prototype ex_manager ''proto-22222222'' = Some 2
   \<and> \<not> can_be_cloned_at (ex_heap ERROR) 2
   \<and> clone_prototype (ex_heap ERROR) ex_manager ''proto-99999999'' None ex_env
       = clone_prototype (ex_heap ERROR) ex_manager ''proto-22222222'' None ex_env
   \<and> (\<exists>s1 s2. clone_prototype_endpoint (ex_heap ERROR) ex_manager ''proto-99999999''
                 ''proto-99999999'' None ex_env = Inl (HTTPException 404 s1)
            \<and> clone_prototype_endpoint (ex_heap ERROR) ex_manager ''proto-22222222''
                 ''proto-22222222'' None ex_env = Inl (HTTPException 404 s2))"
  by (simp add: ex_heap_def ex_resource_def ex_manager_def get_prototype_def
      can_be_cloned_at_def can_be_cloned_def clone_prototype_def clone_prototype_endpoint_def)

text \<open>
  Claim C3, amended. Whether the identifier is absent or its prototype cannot be cloned,
  \<open>clone_prototype\<close> returns \<open>None\<close> and changes nothing, and the endpoint raises the
  same 404 with the same detail.
\<close>

theorem clone_prototype_failures_alike:
  assumes "get_prototype mg pid = None
           \<or> (\<exists>p. get_prototype mg pid = Some p \<and> \<not> can_be_cloned_at h p)"
  shows "clone_prototype h mg pid new_name env = Inr (h, mg, None)
       \<and> clone_prototype_endpoint h mg pid pid new_name env =
           Inl (HTTPException 404
                  (''Prototype with ID '' @ pid @ '' not found or cannot be cloned''))"
  using assms by (auto simp: clone_prototype_def clone_prototype_endpoint_def)

theorem clone_prototype_failures_alike_witness:
  "clone_prototype (ex_heap ERROR) ex_manager ''proto-22222222'' None ex_env
     = Inr (ex_heap ERROR, ex_manager, None)
   \<and> clone_prototype_endpoint (ex_heap ERROR) ex_manager ''proto-22222222'' ''proto-22222222''
       None ex_env
     = Inl (HTTPException 404
              ''Prototype with ID proto-22222222 not found or cannot be cloned'')"
  using clone_prototype_failures_alike [of ex_manager "''proto-22222222''" "ex_heap ERROR"
      None ex_env]
  by (simp add: ex_heap_def ex_resource_def ex_manager_def get_prototype_def
      can_be_cloned_at_def can_be_cloned_def)

section \<open>The clone operation\<close>

lemma clone_post_fields:
  assumes "clone_post h a r env h' c"
  shows "\<exists>cl. ress h' c = Some cl \<and> c \<noteq> a
       \<and> resource_id cl = split_first (resource_id r) @ ''-'' @ take 8 (uuid_resource env)
       \<and> prototype_id cl = ''proto-'' @ take 8 (uuid_prototype env)
       \<and> \<not> is_prototype cl \<and> cloned_from cl = Some (prototype_id r)
       \<and> clone_count cl = 0 \<and> created_at cl = now_created env \<and> last_cloned_at cl = None
       \<and> name cl = name r \<and> region cl = region r \<and> status cl = status r
       \<and> class_name (product cl) = class_name (product r)"
  using assms by (auto simp: clone_post_def cloned_base_def)

lemma clone_Inr_super:
  assumes "ress h a = Some r" and "clone h a env = Inr (h', c)"
  shows "calls_super_clone (product r)"
proof (rule ccontr)
  assume "\<not> calls_super_clone (product r)"
  from clone_no_super [OF assms(1) this] assms(2) show False by simp
qed

lemma clone_Inr_post:
  assumes "wf_heap h" and "ress h a = Some r" and "clone h a env = Inr (h', c)"
  shows "clone_post h a r env h' c"
  using clone_post_super [OF assms(1,2) clone_Inr_super [OF assms(2,3)], of env] assms(3)
  by auto


lemma ex_clone_runs:
  "\<exists>h' c. clone (ex_heap RUNNING) 2 ex_env = Inr (h', c)"
  by (simp add: ex_heap_def ex_resource_def ex_env_def clone_def EC2Instance_clone_def
      CloneableResource_clone_def deepcopy_def deepcopy_obj_def alloc_def upd_res_def
      set_attr_def attr_of_def split_first_def)




lemma mark_as_prototype_res:
  assumes "ress h a = Some r"
  shows "ress (mark_as_prototype h a (Some nm)) a
           = Some (r\<lparr>is_prototype := True, name := (if nm = [] then name r else nm)\<rparr>)"
    and "wf_heap h \<Longrightarrow> wf_heap (mark_as_prototype h a (Some nm))"
  using assms by (auto simp: mark_as_prototype_def upd_res_def wf_heap_def)

lemma register_prototype_result:
  assumes "register_prototype h mg a nm descr cat tgs uuid now = (h1, mg1, P)"
  shows "P = ''proto-'' @ take 8 uuid" and "h1 = mark_as_prototype h a (Some nm)"
    and "get_prototype mg1 P = Some a"
    and "map_of (metadata mg1) P = Some (new_metadata nm descr cat tgs now)"
  using assms
  by (auto simp: register_prototype_def Let_def get_prototype_def update_conv')

section \<open>Registering and cloning through the registry\<close>

text \<open>
  Claim C1, amended. Register a cloneable resource of a class that builds on
  \<open>CloneableResource.clone\<close>, obtaining the registry identifier \<open>P\<close>, and clone \<open>P\<close>
  with a non-empty new name: the clone's \<open>cloned_from\<close> is the resource's own
  \<open>prototype_id\<close> (which registering does not change), its \<open>clone_count\<close> is 0, its
  name is the new name, its resource identifier is the source's prefix with the digits
  just drawn, and the usage count of \<open>P\<close> is 1.
\<close>

theorem register_then_clone:
  assumes "wf_heap h" and "ress h a = Some r" and "calls_super_clone (product r)"
    and "can_be_cloned r" and "n \<noteq> []"
    and "register_prototype h mg a nm descr cat tgs uuid now = (h1, mg1, P)"
  shows "\<exists>h2 mg2 c cl md.
           clone_prototype h1 mg1 P (Some n) env = Inr (h2, mg2, Some c)
         \<and> ress h2 c = Some cl
         \<and> cloned_from cl = Some (prototype_id r)
         \<and> clone_count cl = 0
         \<and> name cl = n
         \<and> resource_id cl = split_first (resource_id r) @ ''-'' @ take 8 (uuid_resource env)
         \<and> map_of (metadata mg2) P = Some md \<and> usage_count md = 1"
proof -
  note reg = register_prototype_result [OF assms(6)]
  define r1 where "r1 = r\<lparr>is_prototype := True, name := (if nm = [] then name r else nm)\<rparr>"
  have r1: "ress h1 a = Some r1" and w1: "wf_heap h1"
    using mark_as_prototype_res [OF assms(2), of nm] assms(1) by (simp_all add: reg(2) r1_def)
  have s1: "calls_super_clone (product r1)" and c1: "can_be_cloned r1"
    using assms(3,4) by (simp_all add: r1_def can_be_cloned_def)
  obtain h2 c where run: "clone h1 a env = Inr (h2, c)" and post: "clone_post h1 a r1 env h2 c"
    using clone_post_super [OF w1 r1 s1] by blast
  from clone_post_fields [OF post] obtain cl where cl: "ress h2 c = Some cl"
      "resource_id cl = split_first (resource_id r1) @ ''-'' @ take 8 (uuid_resource env)"
      "cloned_from cl = Some (prototype_id r1)" "clone_count cl = 0"
    by blast
  define mg2 where "mg2 = mg1\<lparr>metadata := AList.update P
      ((new_metadata nm descr cat tgs now)\<lparr>usage_count := 1\<rparr>) (metadata mg1)\<rparr>"
  have res: "clone_prototype h1 mg1 P (Some n) env
               = Inr (upd_res h2 c (\<lambda>c. c\<lparr>name := n\<rparr>), mg2, Some c)"
    using reg(3,4) r1 c1 run assms(5)
    by (simp add: clone_prototype_def can_be_cloned_at_def mg2_def new_metadata_def)
  have "ress (upd_res h2 c (\<lambda>c. c\<lparr>name := n\<rparr>)) c = Some (cl\<lparr>name := n\<rparr>)"
    using cl(1) by (simp add: upd_res_def)
  moreover have "map_of (metadata mg2) P
       = Some ((new_metadata nm descr cat tgs now)\<lparr>usage_count := 1\<rparr>)"
    by (simp add: mg2_def update_conv')
  ultimately show ?thesis
    using res cl by (simp add: r1_def)
qed

theorem register_then_clone_witness:
  "\<exists>h1 mg1 h2 mg2 c cl md.
      register_prototype (ex_heap RUNNING) empty_manager 2 ''web-template'' [] ''vm'' None
        ex_uuid 7 = (h1, mg1, ''proto-22222222'')
    \<and> clone_prototype h1 mg1 ''proto-22222222'' (Some ''web-prod-01'') ex_env
        = Inr (h2, mg2, Some c)
    \<and> ress h2 c = Some cl \<and> cloned_from cl = Some ''proto-11111111'' \<and> clone_count cl = 0
    \<and> name cl = ''web-prod-01'' \<and> resource_id cl = ''i-01234567''
    \<and> map_of (metadata mg2) ''proto-22222222'' = Some md \<and> usage_count md = 1"
proof -
  obtain h1 mg1 where reg: "register_prototype (ex_heap RUNNING) empty_manager 2
      ''web-template'' [] ''vm'' None ex_uuid 7 = (h1, mg1, ''proto-22222222'')"
    by (simp add: register_prototype_def ex_uuid_def Let_def)
  have w: "wf_heap (ex_heap RUNNING)" by (rule wf_ex_heap)
  have r: "ress (ex_heap RUNNING) 2 = Some (ex_resource RUNNING)" by (simp add: ex_heap_def)
  have s: "calls_super_clone (product (ex_resource RUNNING))" by (simp add: ex_resource_def)
  have c: "can_be_cloned (ex_resource RUNNING)" by (simp add: ex_resource_def can_be_cloned_def)
  have n: "''web-prod-01'' \<noteq> []" by simp
  from register_then_clone [OF w r s c n reg, of ex_env] reg
  show ?thesis
    by (auto simp: ex_resource_def ex_env_def split_first_def)
qed

text \<open>
  Claim C1, as stated, fails. The registry mints \<open>proto-22222222\<close> for a resource whose
  own \<open>prototype_id\<close> is \<open>proto-11111111\<close>, and the clone's \<open>cloned_from\<close> is the
  latter; and a clone asked for with the empty name keeps the prototype's name.
\<close>

theorem register_then_clone_counterexample:
  "(case register_prototype (ex_heap RUNNING) empty_manager 2 ''web-template'' [] ''vm'' None
           ex_uuid 7 of
      (h1, mg1, P) \<Rightarrow>
        P = ''proto-22222222''
        \<and> (case clone_prototype h1 mg1 P (Some ''web-prod-01'') ex_env of
             Inr (h2, mg2, Some c) \<Rightarrow>
               map_option cloned_from (ress h2 c) = Some (Some ''proto-11111111'')
               \<and> map_option cloned_from (ress h2 c) \<noteq> Some (Some P)
           | _ \<Rightarrow> False)
        \<and> (case clone_prototype h1 mg1 P (Some []) ex_env of
             Inr (h2, mg2, Some c) \<Rightarrow>
               map_option name (ress h2 c) = Some ''web-template''
               \<and> map_option name (ress h2 c) \<noteq> Some []
           | _ \<Rightarrow> False))"
  by (simp add: register_prototype_def ex_uuid_def Let_def empty_manager_def new_metadata_def
      mark_as_prototype_def clone_prototype_def get_prototype_def can_be_cloned_at_def
      can_be_cloned_def ex_heap_def ex_resource_def ex_env_def clone_def EC2Instance_clone_def
      CloneableResource_clone_def deepcopy_def deepcopy_obj_def alloc_def upd_res_def
      set_attr_def attr_of_def split_first_def)

section \<open>Isolation of the clone and the reset policy\<close>

lemmas run_defs = clone_def EC2Instance_clone_def ApplicationLoadBalancer_clone_def
  CloneableResource_clone_def deepcopy_def deepcopy_obj_def copy_leaf_def alloc_def upd_res_def
  set_attr_def attr_of_def split_first_def last8_def

text \<open>
  Claim C6 (every nested mutable structure of the clone is a copy, so that changing it
  never changes the source) against \<open>ApplicationLoadBalancer.clone\<close>: after the deep
  copy, \<open>cloned.listeners = self.listeners.copy()\<close> puts a new list of the \<^emph>\<open>same\<close>
  listener dictionaries on the clone. The first listener of the clone is the first
  listener of the source, and setting its port to 8080 through the clone sets the
  source's.
\<close>

theorem alb_clone_shares_listeners:
  "(case clone ex_alb 4 ex_env of
      Inl e \<Rightarrow> False
    | Inr (h', c) \<Rightarrow>
        c \<noteq> 4
        \<and> (case listener_at h' c 0 of
             None \<Rightarrow> False
           | Some d \<Rightarrow>
               listener_at h' 4 0 = Some d
               \<and> get_item h' d ''port'' = Some (VInt 80)
               \<and> (let h'' = set_item h' d ''port'' (VInt 8080)
                  in Option.bind (listener_at h'' 4 0) (\<lambda>s. get_item h'' s ''port'')
                       = Some (VInt 8080))))"
  by (simp add: ex_alb_def ex_env_def run_defs listener_at_def get_item_def set_item_def)

text \<open>
  Claim C7 (every kind of every provider applies its reset policy when cloned) against
  \<open>ComputeEngineInstance.clone\<close>: the running instance can be cloned by its status, and
  \<open>clone\<close> raises \<open>AttributeError\<close> for \<open>_prepare_for_cloning\<close>, directly and through
  the registry; no clone is made.
\<close>

theorem gcp_clone_raises:
  "can_be_cloned_at ex_gcp 1
   \<and> clone ex_gcp 1 ex_env
       = Inl (AttributeError ''ComputeEngineInstance'' ''_prepare_for_cloning'')
   \<and> clone_prototype ex_gcp
        \<lparr>prototypes = [(''proto-55555555'', 1)], metadata = [], categories = []\<rparr>
        ''proto-55555555'' None ex_env
       = Inl (AttributeError ''ComputeEngineInstance'' ''_prepare_for_cloning'')"
  by (simp add: ex_gcp_def can_be_cloned_at_def can_be_cloned_def clone_def
      ComputeEngineInstance_clone_def getattr_undefined_def clone_prototype_def
      get_prototype_def)

text \<open>The tag map of a clone is a new object, and the containers that existed before the
  clone are as they were.\<close>

lemma clone_tags_new:
  assumes "wf_heap h" and "ress h a = Some r" and "clone h a env = Inr (h', c)"
  shows "\<exists>cl. ress h' c = Some cl \<and> lim h \<le> tags cl
       \<and> (\<forall>b. b < lim h \<longrightarrow> objs h' b = objs h b)"
  using clone_Inr_post [OF assms] by (auto simp: clone_post_def)

text \<open>
  The reset policy of the classes of aws_products.py, on the clone that \<open>clone\<close>
  returns: addresses cleared or rebuilt, target lists and stored objects emptied, and
  security groups kept in a list object of the clone's own.
\<close>

lemma class_name_shape:
  "class_name p = ''EC2Instance'' \<Longrightarrow> \<exists>it ami vpc sg kp priv pub. p = EC2Instance it ami vpc sg kp priv pub"
  "class_name p = ''RDSDatabase'' \<Longrightarrow> \<exists>en ic st ep po. p = RDSDatabase en ic st ep po"
  "class_name p = ''ApplicationLoadBalancer'' \<Longrightarrow>
     \<exists>vpc sch tg ls dns. p = ApplicationLoadBalancer vpc sch tg ls dns"
  "class_name p = ''S3Storage'' \<Longrightarrow> \<exists>bn sc ob ve. p = S3Storage bn sc ob ve"
  "class_name p = ''EC2NetworkInterface'' \<Longrightarrow> \<exists>iid sg pub. p = EC2NetworkInterface iid sg pub"
  by (cases p; simp)+

lemma base_clone_shape:
  assumes "wf_heap h" and "ress h a = Some r"
  obtains h1 c t' p' where "CloneableResource_clone h a env = Inr (h1, c)"
    and "ress h1 c = Some ((cloned_base r env)\<lparr>tags := t', product := p'\<rparr>)"
    and "class_name p' = class_name (product r)"
    and "ress h1 a = Some (source_after r env)"
    and "lim h \<le> lim h1" and "a \<noteq> c"
    and "\<forall>b. b < lim h \<longrightarrow> objs h1 b = objs h b"
proof -
  from base_clone_post [OF assms, of env] obtain h1 c where
    b: "CloneableResource_clone h a env = Inr (h1, c)" "clone_post h a r env h1 c" by blast
  from b(2) obtain t' p' where
    "ress h1 c = Some ((cloned_base r env)\<lparr>tags := t', product := p'\<rparr>)"
    "class_name p' = class_name (product r)"
    unfolding clone_post_def by blast
  moreover have "ress h1 a = Some (source_after r env)" "lim h \<le> lim h1" "a \<noteq> c"
    "\<forall>b. b < lim h \<longrightarrow> objs h1 b = objs h b"
    using b(2) unfolding clone_post_def by auto
  ultimately show thesis using that b(1) by blast
qed

lemma EC2Instance_clone_policy:
  assumes "wf_heap h" and "ress h a = Some r"
    and "product r = EC2Instance it ami vpc sg kp priv pub" and "sg < lim h"
    and "clone h a env = Inr (h', c)"
  shows "\<exists>cl sg'. ress h' c = Some cl
       \<and> private_ip (product cl) = Some [] \<and> public_ip (product cl) = Some []
       \<and> security_groups (product cl) = Some sg' \<and> sg' \<noteq> sg \<and> objs h' sg' = objs h sg"
proof -
  obtain h1 c1 t' p' where b: "CloneableResource_clone h a env = Inr (h1, c1)"
    "ress h1 c1 = Some ((cloned_base r env)\<lparr>tags := t', product := p'\<rparr>)"
    "class_name p' = class_name (product r)"
    "ress h1 a = Some (source_after r env)"
    "lim h \<le> lim h1" "a \<noteq> c1"
    "\<forall>b. b < lim h \<longrightarrow> objs h1 b = objs h b"
    by (rule base_clone_shape [OF assms(1,2)])
  from b(3) assms(3) obtain it' ami' vpc' sg0 kp' priv' pub' where
    p': "p' = EC2Instance it' ami' vpc' sg0 kp' priv' pub'"
    using class_name_shape(1) [of p'] by auto
  show ?thesis
    using assms(3,4,5) b
    by (auto simp: clone_def assms(2) EC2Instance_clone_def Let_def set_attr_def upd_res_def
        attr_of_def alloc_def source_after_def p')
qed

lemma EC2NetworkInterface_clone_policy:
  assumes "wf_heap h" and "ress h a = Some r"
    and "product r = EC2NetworkInterface iid sg pub" and "sg < lim h"
    and "clone h a env = Inr (h', c)"
  shows "\<exists>cl sg'. ress h' c = Some cl
       \<and> public_ip (product cl) = Some []
       \<and> security_groups (product cl) = Some sg' \<and> sg' \<noteq> sg \<and> objs h' sg' = objs h sg"
proof -
  obtain h1 c1 t' p' where b: "CloneableResource_clone h a env = Inr (h1, c1)"
    "ress h1 c1 = Some ((cloned_base r env)\<lparr>tags := t', product := p'\<rparr>)"
    "class_name p' = class_name (product r)"
    "ress h1 a = Some (source_after r env)"
    "lim h \<le> lim h1" "a \<noteq> c1"
    "\<forall>b. b < lim h \<longrightarrow> objs h1 b = objs h b"
    by (rule base_clone_shape [OF assms(1,2)])
  from b(3) assms(3) obtain iid' sg0 pub' where
    p': "p' = EC2NetworkInterface iid' sg0 pub'"
    using class_name_shape(5) [of p'] by auto
  show ?thesis
    using assms(3,4,5) b
    by (auto simp: clone_def assms(2) EC2NetworkInterface_clone_def Let_def set_attr_def
        upd_res_def attr_of_def alloc_def source_after_def p')
qed

lemma RDSDatabase_clone_policy:
  assumes "wf_heap h" and "ress h a = Some r"
    and "product r = RDSDatabase en ic st ep po"
    and "clone h a env = Inr (h', c)"
  shows "\<exists>cl. ress h' c = Some cl
       \<and> endpoint (product cl) = Some (name r @ ''.'' @ region r @ ''.rds.amazonaws.com'')"
proof -
  obtain h1 c1 t' p' where b: "CloneableResource_clone h a env = Inr (h1, c1)"
    "ress h1 c1 = Some ((cloned_base r env)\<lparr>tags := t', product := p'\<rparr>)"
    "class_name p' = class_name (product r)"
    "ress h1 a = Some (source_after r env)"
    "lim h \<le> lim h1" "a \<noteq> c1"
    "\<forall>b. b < lim h \<longrightarrow> objs h1 b = objs h b"
    by (rule base_clone_shape [OF assms(1,2)])
  from b(3) assms(3) obtain en' ic' st' ep' po' where
    p': "p' = RDSDatabase en' ic' st' ep' po'"
    using class_name_shape(2) [of p'] by auto
  show ?thesis
    using assms(3,4) b
    by (auto simp: clone_def assms(2) RDSDatabase_clone_def Let_def set_attr_def
        upd_res_def cloned_base_def p')
qed

lemma ApplicationLoadBalancer_clone_policy:
  assumes "wf_heap h" and "ress h a = Some r"
    and "product r = ApplicationLoadBalancer vpc sch tg ls dns" and "tg < lim h"
    and "clone h a env = Inr (h', c)"
  shows "\<exists>cl tg'. ress h' c = Some cl
       \<and> targets (product cl) = Some tg' \<and> tg' \<noteq> tg \<and> objs h' tg' = Some (StrList [])
       \<and> dns_name (product cl)
           = Some (name r @ ''-'' @ last8 (resource_id cl) @ ''.'' @ region r
                     @ ''.elb.amazonaws.com'')"
proof -
  obtain h1 c1 t' p' where b: "CloneableResource_clone h a env = Inr (h1, c1)"
    "ress h1 c1 = Some ((cloned_base r env)\<lparr>tags := t', product := p'\<rparr>)"
    "class_name p' = class_name (product r)"
    "ress h1 a = Some (source_after r env)"
    "lim h \<le> lim h1" "a \<noteq> c1"
    "\<forall>b. b < lim h \<longrightarrow> objs h1 b = objs h b"
    by (rule base_clone_shape [OF assms(1,2)])
  from b(3) assms(3) obtain vpc' sch' tg0 ls0 dns' where
    p': "p' = ApplicationLoadBalancer vpc' sch' tg0 ls0 dns'"
    using class_name_shape(3) [of p'] by auto
  show ?thesis
    using assms(3,4,5) b
    by (auto simp: clone_def assms(2) ApplicationLoadBalancer_clone_def Let_def set_attr_def
        upd_res_def attr_of_def alloc_def source_after_def cloned_base_def p')
qed


lemma S3Storage_clone_policy:
  assumes "wf_heap h" and "ress h a = Some r"
    and "product r = S3Storage bn sc ob ve" and "ob < lim h"
    and "clone h a env = Inr (h', c)"
  shows "\<exists>cl ob'. ress h' c = Some cl
       \<and> objects (product cl) = Some ob' \<and> ob' \<noteq> ob \<and> objs h' ob' = Some (RefDict [])"
proof -
  obtain h1 c1 t' p' where b: "CloneableResource_clone h a env = Inr (h1, c1)"
    "ress h1 c1 = Some ((cloned_base r env)\<lparr>tags := t', product := p'\<rparr>)"
    "class_name p' = class_name (product r)"
    "ress h1 a = Some (source_after r env)"
    "lim h \<le> lim h1" "a \<noteq> c1"
    "\<forall>b. b < lim h \<longrightarrow> objs h1 b = objs h b"
    by (rule base_clone_shape [OF assms(1,2)])
  from b(3) assms(3) obtain bn' sc' ob0 ve' where
    p': "p' = S3Storage bn' sc' ob0 ve'"
    using class_name_shape(4) [of p'] by auto
  show ?thesis
    using assms(3,4,5) b
    by (auto simp: clone_def assms(2) S3Storage_clone_def Let_def set_attr_def
        upd_res_def alloc_def p')
qed

section \<open>The registry invariant\<close>

lemma count_list_filter_neq:
  "count_list (filter (\<lambda>p. p \<noteq> x) ids) y = (if y = x then 0 else count_list ids y)"
  by (induction ids) auto

lemma inv_maps_empty: "inv_maps Map.empty Map.empty Map.empty"
  by (simp add: inv_maps_def)

lemma inv_maps_register:
  assumes "inv_maps P M C" and "pid \<notin> dom P" and "0 \<le> usage_count md0"
  shows "inv_maps (P(pid \<mapsto> a)) (M(pid \<mapsto> md0))
           (C(md_category md0 \<mapsto> (case C (md_category md0) of None \<Rightarrow> [] | Some ids \<Rightarrow> ids) @ [pid]))"
proof -
  let ?cat = "md_category md0"
  let ?old = "case C ?cat of None \<Rightarrow> [] | Some ids \<Rightarrow> ids"
  have domeq: "dom M = dom P" using assms(1) by (simp add: inv_maps_def)
  have fresh_M: "M pid = None" using assms(2) domeq by auto
  have lists: "\<And>c ids p. C c = Some ids \<Longrightarrow> p \<in> set ids \<Longrightarrow> \<exists>md. M p = Some md \<and> md_category md = c"
    using assms(1) by (simp add: inv_maps_def)
  have mds: "\<And>p md. M p = Some md \<Longrightarrow>
      0 \<le> usage_count md \<and> (\<exists>ids. C (md_category md) = Some ids \<and> count_list ids p = 1)"
    using assms(1) by (simp add: inv_maps_def)
  have old_in: "\<exists>md. M p = Some md \<and> md_category md = ?cat" if "p \<in> set ?old" for p
  proof (cases "C ?cat")
    case None
    with that show ?thesis by simp
  next
    case (Some ids)
    with that lists [OF Some, of p] show ?thesis by simp
  qed
  have notin_old: "pid \<notin> set ?old"
    using old_in [of pid] fresh_M by auto
  show ?thesis
    unfolding inv_maps_def
  proof (intro conjI allI impI)
    show "dom (M(pid \<mapsto> md0)) = dom (P(pid \<mapsto> a))" using domeq by simp
  next
    fix p md assume "(M(pid \<mapsto> md0)) p = Some md"
    then consider "p = pid" "md = md0" | "p \<noteq> pid" "M p = Some md"
      by (auto split: if_splits)
    then show "0 \<le> usage_count md"
      using assms(3) mds by cases auto
  next
    fix p md assume "(M(pid \<mapsto> md0)) p = Some md"
    then consider (new) "p = pid" "md = md0" | (old) "p \<noteq> pid" "M p = Some md"
      by (auto split: if_splits)
    then show "\<exists>ids. (C(?cat \<mapsto> ?old @ [pid])) (md_category md) = Some ids \<and> count_list ids p = 1"
    proof cases
      case new
      then show ?thesis using notin_old by (simp add: count_list_0_iff)
    next
      case old
      from mds [OF old(2)] obtain ids where ids: "C (md_category md) = Some ids" "count_list ids p = 1"
        by blast
      show ?thesis
      proof (cases "md_category md = ?cat")
        case True
        then show ?thesis using ids old(1) by simp
      next
        case False
        then show ?thesis using ids by simp
      qed
    qed
  next
    fix c ids p
    assume c: "(C(?cat \<mapsto> ?old @ [pid])) c = Some ids" and p: "p \<in> set ids"
    show "\<exists>md. (M(pid \<mapsto> md0)) p = Some md \<and> md_category md = c"
    proof (cases "c = ?cat")
      case True
      then have "ids = ?old @ [pid]" using c by simp
      then consider "p = pid" | "p \<noteq> pid" "p \<in> set ?old" using p by auto
      then show ?thesis
      proof cases
        case 1
        then show ?thesis using True by simp
      next
        case 2
        then show ?thesis using old_in [OF 2(2)] True by auto
      qed
    next
      case False
      then have cc: "C c = Some ids" using c by simp
      from lists [OF cc p] obtain md where md: "M p = Some md" "md_category md = c" by blast
      then have "p \<noteq> pid" using fresh_M by auto
      then show ?thesis using md by simp
    qed
  qed
qed

lemma inv_maps_usage:
  assumes "inv_maps P M C" and "M pid = Some md"
  shows "inv_maps P (M(pid \<mapsto> md\<lparr>usage_count := usage_count md + 1\<rparr>)) C"
proof -
  have domeq: "dom M = dom P" using assms(1) by (simp add: inv_maps_def)
  have lists: "\<And>c ids p. C c = Some ids \<Longrightarrow> p \<in> set ids \<Longrightarrow> \<exists>md. M p = Some md \<and> md_category md = c"
    using assms(1) by (simp add: inv_maps_def)
  have mds: "\<And>p md. M p = Some md \<Longrightarrow>
      0 \<le> usage_count md \<and> (\<exists>ids. C (md_category md) = Some ids \<and> count_list ids p = 1)"
    using assms(1) by (simp add: inv_maps_def)
  show ?thesis
    unfolding inv_maps_def
  proof (intro conjI allI impI)
    show "dom (M(pid \<mapsto> md\<lparr>usage_count := usage_count md + 1\<rparr>)) = dom P"
      using domeq assms(2) by auto
  next
    fix p m assume "(M(pid \<mapsto> md\<lparr>usage_count := usage_count md + 1\<rparr>)) p = Some m"
    then consider "p = pid" "m = md\<lparr>usage_count := usage_count md + 1\<rparr>" | "p \<noteq> pid" "M p = Some m"
      by (auto split: if_splits)
    then show "0 \<le> usage_count m"
      using mds [OF assms(2)] mds by cases auto
  next
    fix p m assume "(M(pid \<mapsto> md\<lparr>usage_count := usage_count md + 1\<rparr>)) p = Some m"
    then consider "p = pid" "m = md\<lparr>usage_count := usage_count md + 1\<rparr>" | "p \<noteq> pid" "M p = Some m"
      by (auto split: if_splits)
    then show "\<exists>ids. C (md_category m) = Some ids \<and> count_list ids p = 1"
      using mds [OF assms(2)] mds by cases auto
  next
    fix c ids p
    assume "C c = Some ids" and "p \<in> set ids"
    from lists [OF this] obtain m where m: "M p = Some m" "md_category m = c" by blast
    show "\<exists>m. (M(pid \<mapsto> md\<lparr>usage_count := usage_count md + 1\<rparr>)) p = Some m \<and> md_category m = c"
      using m assms(2) by (cases "p = pid") auto
  qed
qed

lemma inv_maps_remove:
  assumes "inv_maps P M C" and "M pid = Some md" and "C (md_category md) = Some ids"
  shows "inv_maps (P(pid := None)) (M(pid := None))
           (C(md_category md \<mapsto> filter (\<lambda>p. p \<noteq> pid) ids))"
proof -
  let ?cat = "md_category md"
  have domeq: "dom M = dom P" using assms(1) by (simp add: inv_maps_def)
  have lists: "\<And>c ids p. C c = Some ids \<Longrightarrow> p \<in> set ids \<Longrightarrow> \<exists>md. M p = Some md \<and> md_category md = c"
    using assms(1) by (simp add: inv_maps_def)
  have mds: "\<And>p md. M p = Some md \<Longrightarrow>
      0 \<le> usage_count md \<and> (\<exists>ids. C (md_category md) = Some ids \<and> count_list ids p = 1)"
    using assms(1) by (simp add: inv_maps_def)
  show ?thesis
    unfolding inv_maps_def
  proof (intro conjI allI impI)
    show "dom (M(pid := None)) = dom (P(pid := None))" using domeq by auto
  next
    fix p m assume "(M(pid := None)) p = Some m"
    then have "M p = Some m" by (auto split: if_splits)
    then show "0 \<le> usage_count m" using mds by blast
  next
    fix p m assume "(M(pid := None)) p = Some m"
    then have pm: "p \<noteq> pid" "M p = Some m" by (auto split: if_splits)
    from mds [OF pm(2)] obtain js where js: "C (md_category m) = Some js" "count_list js p = 1"
      by blast
    show "\<exists>js. (C(?cat \<mapsto> filter (\<lambda>p. p \<noteq> pid) ids)) (md_category m) = Some js
            \<and> count_list js p = 1"
    proof (cases "md_category m = ?cat")
      case True
      then have "js = ids" using js(1) assms(3) by simp
      then show ?thesis using True js(2) pm(1) by (simp add: count_list_filter_neq)
    next
      case False
      then show ?thesis using js by simp
    qed
  next
    fix c js p
    assume c: "(C(?cat \<mapsto> filter (\<lambda>p. p \<noteq> pid) ids)) c = Some js" and p: "p \<in> set js"
    show "\<exists>m. (M(pid := None)) p = Some m \<and> md_category m = c"
    proof (cases "c = ?cat")
      case True
      then have "js = filter (\<lambda>p. p \<noteq> pid) ids" using c by simp
      then have "p \<noteq> pid" "p \<in> set ids" using p by auto
      with lists [OF assms(3)] True show ?thesis by auto
    next
      case False
      then have cc: "C c = Some js" using c by simp
      from lists [OF cc p] obtain m where m: "M p = Some m" "md_category m = c" by blast
      then have "p \<noteq> pid" using assms(2) False by auto
      then show ?thesis using m by simp
    qed
  qed
qed


lemma inv_maps_md:
  "inv_maps P M C \<Longrightarrow> M pid = Some md \<Longrightarrow>
     \<exists>ids. C (md_category md) = Some ids \<and> count_list ids pid = 1"
  by (simp add: inv_maps_def)


lemma register_prototype_manager:
  assumes "register_prototype h mg p nm descr cat tgs uuid now = (h', mg', pid)"
  shows "pid = ''proto-'' @ take 8 uuid"
    and "prototypes mg' = AList.update pid p (prototypes mg)"
    and "metadata mg' = AList.update pid (new_metadata nm descr cat tgs now) (metadata mg)"
    and "map_of (categories mg') =
           (map_of (categories mg))
             (cat \<mapsto> (case map_of (categories mg) cat of None \<Rightarrow> [] | Some ids \<Rightarrow> ids) @ [pid])"
    and "distinct (map fst (categories mg)) \<Longrightarrow> distinct (map fst (categories mg'))"
  using assms
  by (auto simp: register_prototype_def Let_def update_conv' distinct_update
      split: option.splits if_splits)

lemma register_inv:
  assumes "registry_inv mg" and "''proto-'' @ take 8 uuid \<notin> fst ` set (prototypes mg)"
    and "register_prototype h mg p nm descr cat tgs uuid now = (h', mg', pid)"
  shows "registry_inv mg'"
proof -
  note r = register_prototype_manager [OF assms(3)]
  have fresh: "pid \<notin> dom (map_of (prototypes mg))"
    using assms(2) r(1) by (simp add: dom_map_of_conv_image_fst)
  have m: "inv_maps (map_of (prototypes mg)) (map_of (metadata mg)) (map_of (categories mg))"
    using assms(1) by (simp add: registry_inv_def)
  have "inv_maps (map_of (prototypes mg')) (map_of (metadata mg')) (map_of (categories mg'))"
    using inv_maps_register [OF m fresh, of "new_metadata nm descr cat tgs now" p]
    by (simp add: r(2,3,4) update_conv' new_metadata_def)
  then show ?thesis
    using assms(1) r(5) by (simp add: registry_inv_def r(2,3) distinct_update)
qed

lemma clone_prototype_manager:
  assumes "clone_prototype h mg pid new_name env = Inr (h', mg', res)"
  shows "mg' = mg \<or> (\<exists>md. map_of (metadata mg) pid = Some md
           \<and> mg' = mg\<lparr>metadata := AList.update pid (md\<lparr>usage_count := usage_count md + 1\<rparr>)
                                     (metadata mg)\<rparr>)"
  using assms
  by (auto simp: clone_prototype_def Let_def split: option.splits if_splits sum.splits)

lemma clone_inv:
  assumes "registry_inv mg" and "clone_prototype h mg pid new_name env = Inr (h', mg', res)"
  shows "registry_inv mg'"
proof -
  from clone_prototype_manager [OF assms(2)]
  consider "mg' = mg"
    | md where "map_of (metadata mg) pid = Some md"
        "mg' = mg\<lparr>metadata := AList.update pid (md\<lparr>usage_count := usage_count md + 1\<rparr>)
                                  (metadata mg)\<rparr>"
    by blast
  then show ?thesis
  proof cases
    case 1
    then show ?thesis using assms(1) by simp
  next
    case 2
    have m: "inv_maps (map_of (prototypes mg)) (map_of (metadata mg)) (map_of (categories mg))"
      using assms(1) by (simp add: registry_inv_def)
    from inv_maps_usage [OF m 2(1)] assms(1) show ?thesis
      by (simp add: registry_inv_def 2(2) update_conv' distinct_update)
  qed
qed

lemma remove_inv:
  assumes "registry_inv mg" and "remove_prototype mg pid = (mg', b)"
  shows "registry_inv mg'"
proof (cases "map_of (prototypes mg) pid")
  case None
  then show ?thesis using assms by (simp add: remove_prototype_def)
next
  case (Some a)
  have m: "inv_maps (map_of (prototypes mg)) (map_of (metadata mg)) (map_of (categories mg))"
    using assms(1) by (simp add: registry_inv_def)
  then have "pid \<in> dom (map_of (metadata mg))" using Some by (auto simp: inv_maps_def)
  then obtain md where md: "map_of (metadata mg) pid = Some md" by blast
  from inv_maps_md [OF m md]
  obtain ids where ids: "map_of (categories mg) (md_category md) = Some ids"
    by blast
  have mg': "mg' = mg\<lparr>prototypes := AList.delete pid (prototypes mg),
                      metadata := AList.delete pid (metadata mg),
                      categories := AList.update (md_category md) (filter (\<lambda>p. p \<noteq> pid) ids)
                                      (categories mg)\<rparr>"
    using assms(2) Some md ids by (simp add: remove_prototype_def)
  from inv_maps_remove [OF m md ids] assms(1) show ?thesis
    by (simp add: registry_inv_def mg' update_conv' delete_conv' distinct_update distinct_delete)
qed

lemma reachable_inv: "reachable s \<Longrightarrow> registry_inv (snd s)"
proof (induction rule: reachable.induct)
  case (initial h)
  show ?case by (simp add: registry_inv_def empty_manager_def inv_maps_def)
next
  case (world h mg h')
  then show ?case by simp
next
  case (register h mg uuid p nm descr cat tgs now h' mg' pid)
  then show ?case using register_inv by auto
next
  case (clone h mg pid new_name env h' mg' res)
  then show ?case using clone_inv by auto
next
  case (remove h mg pid mg' b)
  then show ?case using remove_inv by auto
qed





lemma reachable_usage_nonneg:
  assumes "reachable (h, mg)"
  shows "\<forall>e \<in> set (metadata mg). 0 \<le> usage_count (snd e)"
proof
  fix e assume e: "e \<in> set (metadata mg)"
  have inv: "registry_inv mg" using reachable_inv [OF assms] by simp
  then have d: "distinct (map fst (metadata mg))"
    and m: "inv_maps (map_of (prototypes mg)) (map_of (metadata mg)) (map_of (categories mg))"
    by (simp_all add: registry_inv_def)
  obtain k v where kv: "e = (k, v)" by (metis surj_pair)
  have "map_of (metadata mg) (fst e) = Some (snd e)"
    using e d by (simp add: kv)
  with m show "0 \<le> usage_count (snd e)"
    unfolding inv_maps_def by blast
qed

section \<open>Statistics\<close>

lemma py_sum_sum_list: "py_sum xs = sum_list xs"
proof -
  have "foldl (+) a xs = a + sum_list xs" for a :: int
    by (induction xs arbitrary: a) simp_all
  then show ?thesis by (simp add: py_sum_def)
qed

lemma most_used_loop_find:
  "fst (most_used_loop ms (acc, mx)) =
     (if \<forall>e \<in> set ms. usage_count (snd e) \<le> mx then acc
      else map_option most_used_entry
             (find (\<lambda>e. mx < usage_count (snd e)
                        \<and> (\<forall>e' \<in> set ms. usage_count (snd e') \<le> usage_count (snd e))) ms))"
proof (induction ms arbitrary: acc mx)
  case Nil
  then show ?case by simp
next
  case (Cons x rest)
  obtain pid md where x: "x = (pid, md)" by (cases x)
  show ?case
  proof (cases "usage_count md > mx")
    case True
    show ?thesis
    proof (cases "\<forall>e \<in> set rest. usage_count (snd e) \<le> usage_count md")
      case all: True
      with True show ?thesis
        by (simp add: x Cons.IH most_used_entry_def)
    next
      case ex: False
      have eq: "find (\<lambda>e. usage_count md < usage_count (snd e)
                        \<and> (\<forall>e' \<in> set rest. usage_count (snd e') \<le> usage_count (snd e))) rest
              = find (\<lambda>e. mx < usage_count (snd e)
                        \<and> (\<forall>e' \<in> set (x # rest). usage_count (snd e') \<le> usage_count (snd e))) rest"
        using True ex by (intro find_cong refl) (auto simp: x)
      from True ex show ?thesis
        by (auto simp: x Cons.IH eq [unfolded x])
    qed
  next
    case False
    have eq: "find (\<lambda>e. mx < usage_count (snd e)
                        \<and> (\<forall>e' \<in> set rest. usage_count (snd e') \<le> usage_count (snd e))) rest
              = find (\<lambda>e. mx < usage_count (snd e)
                        \<and> (\<forall>e' \<in> set (x # rest). usage_count (snd e') \<le> usage_count (snd e))) rest"
      using False by (intro find_cong refl) (auto simp: x)
    from False show ?thesis
      by (auto simp: x Cons.IH eq [unfolded x])
  qed
qed

lemma most_used_spec_alt:
  "most_used_spec ms =
     (if \<forall>e \<in> set ms. usage_count (snd e) = 0 then None
      else map_option most_used_entry
             (find (\<lambda>e. \<forall>e' \<in> set ms. usage_count (snd e') \<le> usage_count (snd e)) ms))"
  by (auto simp: most_used_spec_def most_used_entry_def split: option.splits)

text \<open>
  Claim C9. \<open>total_clones_created\<close> is the sum, over the stored prototypes, of the
  \<open>clone_count\<close> of each; \<open>most_used_prototype\<close> is the first entry, in iteration order,
  among those with the highest usage count, and none when every usage count is zero.
  Usage counts are not negative (they start at 0 and are only incremented).
\<close>

theorem get_statistics_spec:
  assumes "\<forall>e \<in> set (metadata mg). 0 \<le> usage_count (snd e)"
  shows "total_clones_created (get_statistics h mg)
           = (\<Sum>(pid, p) \<leftarrow> prototypes mg. clone_count_at h p)
       \<and> most_used_prototype (get_statistics h mg) = most_used_spec (metadata mg)"
proof -
  let ?ms = "metadata mg"
  have a: "(\<forall>e \<in> set ?ms. usage_count (snd e) \<le> 0) = (\<forall>e \<in> set ?ms. usage_count (snd e) = 0)"
    using assms by fastforce
  have b: "find (\<lambda>e. 0 < usage_count (snd e)
                    \<and> (\<forall>e' \<in> set ?ms. usage_count (snd e') \<le> usage_count (snd e))) ?ms
         = find (\<lambda>e. \<forall>e' \<in> set ?ms. usage_count (snd e') \<le> usage_count (snd e)) ?ms"
    if "\<not> (\<forall>e \<in> set ?ms. usage_count (snd e) = 0)"
  proof -
    from that assms obtain e0 where e0: "e0 \<in> set ?ms" "0 < usage_count (snd e0)"
      by force
    show ?thesis
      using e0 by (intro find_cong refl) force
  qed
  have "fst (most_used_loop ?ms (None, 0)) = most_used_spec ?ms"
    unfolding most_used_loop_find most_used_spec_alt a using b by simp
  then show ?thesis
    by (simp add: get_statistics_def py_sum_sum_list)
qed

theorem get_statistics_spec_witness:
  "total_clones_created (get_statistics ex_heap_cloned ex_stats_manager) = 9
   \<and> most_used_prototype (get_statistics ex_heap_cloned ex_stats_manager)
       = Some \<lparr>mu_prototype_id = ''proto-b'', mu_name = ''b'', mu_usage_count = 2\<rparr>
   \<and> most_used_spec (metadata ex_stats_manager)
       = Some \<lparr>mu_prototype_id = ''proto-b'', mu_name = ''b'', mu_usage_count = 2\<rparr>
   \<and> most_used_prototype (get_statistics ex_heap_cloned empty_manager) = None"
proof -
  have n: "\<forall>e \<in> set (metadata ex_stats_manager). 0 \<le> usage_count (snd e)"
    by (simp add: ex_stats_manager_def new_metadata_def)
  have n0: "\<forall>e \<in> set (metadata empty_manager). 0 \<le> usage_count (snd e)"
    by (simp add: empty_manager_def)
  from get_statistics_spec [OF n, of ex_heap_cloned] get_statistics_spec [OF n0, of ex_heap_cloned]
  show ?thesis
    by (simp add: ex_stats_manager_def new_metadata_def most_used_spec_def empty_manager_def
        clone_count_at_def ex_heap_cloned_def)
qed

end
